theory Spec2Isabelle
  imports Complex_Main "HOL-Library.Signed_Division"
begin

section \<open>Data model\<close>

text \<open>
  The simulator computes with single-precision floats. They are idealised here by
  \<^typ>\<open>real\<close>: rounding, overflow and infinities are outside the model. The one place
  where the program itself tests for a NaN (the direction of a zero-length ray) is
  modelled explicitly, see \<open>normalize_nan\<close> below. Machine integers are idealised by
  \<^typ>\<open>int\<close> and \<^typ>\<open>nat\<close>; the C rules for \<open>/\<close> and \<open>%\<close> (truncation towards
  zero) and for unsigned subtraction (wrap-around) are written out.
\<close>

datatype vec3 = vec3 (vec_x: real) (vec_y: real) (vec_z: real)

text \<open>The cell markers of \<open>enum geomtype\<close>.\<close>

datatype geomtype = SOLID | FLUID | AIR

text \<open>
  Modelled from the spec: the grid classes \<open>floatgrid\<close>, \<open>intgrid\<close> and \<open>Grid<T>\<close>,
  whose declarations are missing. A grid is a field of cells addressed by integer
  \<open>(i,j,k)\<close>, with a background value for the cells never written. The solver creates
  its grids with \<open>new floatgrid(0.0f)\<close>, from the background value alone, and
  \<open>ExtrapolateVelocity\<close> writes its \<open>Grid<int>(m_dimensions, 0)\<close> at the faces
  \<open>i = x\<close>, \<open>j = y\<close> and \<open>k = z\<close>, one beyond \<open>m_dimensions\<close>: a grid is therefore a
  total map from integer coordinates to values, \<open>getCell\<close> reads a coordinate and
  \<open>setCell\<close> overwrites it. The clamping of out-of-bounds indices that the spec
  mentions would make those faces share a cell with their neighbours; it is not
  modelled. In the functions on the contents of grids, the grids of one \<open>macgrid\<close> are
  distinct objects: a grid is a value, and writing one never changes another. The solver
  is given on a heap of grids as well, further down.
\<close>

type_synonym 'a grid = "int \<times> int \<times> int \<Rightarrow> 'a"

definition getCell :: "'a grid \<Rightarrow> int \<Rightarrow> int \<Rightarrow> int \<Rightarrow> 'a" where
  "getCell g i j k = g (i, j, k)"

definition setCell :: "'a grid \<Rightarrow> int \<Rightarrow> int \<Rightarrow> int \<Rightarrow> 'a \<Rightarrow> 'a grid" where
  "setCell g i j k v = g((i, j, k) := v)"

text \<open>
  The \<open>macgrid\<close>: the solver file names its members \<open>A\<close>, \<open>L\<close>, \<open>P\<close>, \<open>D\<close> and
  \<open>dimensions\<close>, the simulation file \<open>m_A\<close>, \<open>m_L\<close>, \<open>m_P\<close>, \<open>m_D\<close>, \<open>m_u_x\<close>,
  \<open>m_u_y\<close> and \<open>m_u_z\<close>; the latter names are used for both.
\<close>

record macgrid =
  dimensions :: vec3
  m_u_x :: "real grid"
  m_u_y :: "real grid"
  m_u_z :: "real grid"
  m_P :: "real grid"
  m_D :: "real grid"
  m_A :: "geomtype grid"
  m_L :: "real grid"

text \<open>The C conversion \<open>(int)f\<close> of a float: truncation towards zero.\<close>

definition cint :: "real \<Rightarrow> int" where
  "cint r = (if 0 \<le> r then \<lfloor>r\<rfloor> else \<lceil>r\<rceil>)"

text \<open>The counter values of \<open>for(int gn=0; gn<n; gn++)\<close>.\<close>

definition loop_range :: "int \<Rightarrow> int list" where
  "loop_range n = map int [0..<nat n]"

text \<open>
  The counters and resolutions of the solver are 32-bit \<open>int\<close>s. A product that
  leaves the range overflows; it is modelled by the two's-complement wrap-around of the
  hardware, so that \<open>x*y*z\<close> is \<open>imul (imul x y) z\<close>.
\<close>

definition int32 :: "int \<Rightarrow> int" where
  "int32 a = (a + 2 ^ 31) mod 2 ^ 32 - 2 ^ 31"

definition imul :: "int \<Rightarrow> int \<Rightarrow> int" where
  "imul a b = int32 (a * b)"

section \<open>The pressure solver\<close>

text \<open>
  The decomposition of the flat counter \<open>gn\<close> into a cell, shared by every loop of the
  solver: \<open>i=(gn%(x*y))%z; j=(gn%(x*y))/z; k=gn/(x*y)\<close>.
\<close>

definition gn_i :: "int \<Rightarrow> int \<Rightarrow> int \<Rightarrow> int \<Rightarrow> int" where
  "gn_i x y z gn = (gn smod (imul x y)) smod z"

definition gn_j :: "int \<Rightarrow> int \<Rightarrow> int \<Rightarrow> int \<Rightarrow> int" where
  "gn_j x y z gn = (gn smod (imul x y)) sdiv z"

definition gn_k :: "int \<Rightarrow> int \<Rightarrow> int \<Rightarrow> int \<Rightarrow> int" where
  "gn_k x y z gn = gn sdiv (imul x y)"

text \<open>\<open>flipGrid\<close>: ``Takes a grid, multiplies everything by -1''.\<close>

definition flipGrid_body :: "int \<Rightarrow> int \<Rightarrow> int \<Rightarrow> int \<Rightarrow> real grid \<Rightarrow> real grid" where
  "flipGrid_body x y z gn grid =
     (let i = gn_i x y z gn; j = gn_j x y z gn; k = gn_k x y z gn;
          flipped = - getCell grid i j k
      in setCell grid i j k flipped)"

definition flipGrid :: "real grid \<Rightarrow> vec3 \<Rightarrow> real grid" where
  "flipGrid grid dims =
     (let x = cint (vec_x dims); y = cint (vec_y dims); z = cint (vec_z dims)
      in fold (flipGrid_body x y z) (loop_range (imul (imul x y) z)) grid)"

text \<open>\<open>ARef\<close>: the off-diagonal entry of the matrix between two cells.\<close>

definition ARef :: "geomtype grid \<Rightarrow> int \<Rightarrow> int \<Rightarrow> int \<Rightarrow> int \<Rightarrow> int \<Rightarrow> int \<Rightarrow> vec3 \<Rightarrow> real" where
  "ARef a i j k qi qj qk dims =
     (let x = cint (vec_x dims); y = cint (vec_y dims); z = cint (vec_z dims)
      in if i < 0 \<or> i > x - 1 \<or> j < 0 \<or> j > y - 1 \<or> k < 0 \<or> k > z - 1
            \<or> getCell a i j k \<noteq> FLUID then 0
         else if qi < 0 \<or> qi > x - 1 \<or> qj < 0 \<or> qj > y - 1 \<or> qk < 0 \<or> qk > z - 1
            \<or> getCell a qi qj qk \<noteq> FLUID then 0
         else - 1)"

text \<open>
  \<open>PRef\<close> receives the preconditioner grid only, and compares the float it reads there
  with the enumerator \<open>FLUID\<close>. The numeric value of the enumerator is declared in a
  header that is not part of the sources at hand; it is the parameter \<open>fluid\<close>.
\<close>

definition PRef :: "int \<Rightarrow> real grid \<Rightarrow> int \<Rightarrow> int \<Rightarrow> int \<Rightarrow> vec3 \<Rightarrow> real" where
  "PRef fluid p i j k dims =
     (let x = cint (vec_x dims); y = cint (vec_y dims); z = cint (vec_z dims)
      in if i < 0 \<or> i > x - 1 \<or> j < 0 \<or> j > y - 1 \<or> k < 0 \<or> k > z - 1
            \<or> getCell p i j k \<noteq> of_int fluid then 0
         else getCell p i j k)"

text \<open>\<open>ADiag\<close>: the diagonal entry of the matrix; \<open>subcell\<close> is a C truth value.\<close>

definition ADiag_body ::
  "geomtype grid \<Rightarrow> real grid \<Rightarrow> int \<Rightarrow> int \<Rightarrow> int \<Rightarrow> int \<Rightarrow> int \<Rightarrow> int \<Rightarrow> int
     \<Rightarrow> int \<times> int \<times> int \<Rightarrow> real \<Rightarrow> real" where
  "ADiag_body a l i j k x y z subcell q diag =
     (case q of (qi, qj, qk) \<Rightarrow>
        if qi < 0 \<or> qi > x - 1 \<or> qj < 0 \<or> qj > y - 1 \<or> qk < 0 \<or> qk > z - 1
           \<or> getCell a qi qj qk = SOLID then diag - 1
        else if getCell a qi qj qk = AIR \<and> subcell \<noteq> 0
          then diag - getCell l qi qj qk / min (1 / 10 ^ 6) (getCell l i j k)
        else diag)"

definition ADiag :: "geomtype grid \<Rightarrow> real grid \<Rightarrow> int \<Rightarrow> int \<Rightarrow> int \<Rightarrow> vec3 \<Rightarrow> int \<Rightarrow> real" where
  "ADiag a l i j k dims subcell =
     (let x = cint (vec_x dims); y = cint (vec_y dims); z = cint (vec_z dims);
          diag = 6
      in if getCell a i j k \<noteq> FLUID then diag
         else fold (ADiag_body a l i j k x y z subcell)
                [(i - 1, j, k), (i + 1, j, k), (i, j - 1, k), (i, j + 1, k),
                 (i, j, k - 1), (i, j, k + 1)] diag)"

text \<open>\<open>buildPreconditioner\<close>: one pass over the cells, writing the grid \<open>pc\<close>.\<close>

definition buildPreconditioner_body ::
  "int \<Rightarrow> macgrid \<Rightarrow> int \<Rightarrow> int \<Rightarrow> int \<Rightarrow> int \<Rightarrow> int \<Rightarrow> real grid \<Rightarrow> real grid" where
  "buildPreconditioner_body fluid mgrid subcell x y z gn pc =
     (let a = 1 / 4;
          i = gn_i x y z gn; j = gn_j x y z gn; k = gn_k x y z gn
      in if getCell (m_A mgrid) i j k = FLUID then
           (let left = ARef (m_A mgrid) (i - 1) j k i j k (dimensions mgrid)
                         * PRef fluid pc (i - 1) j k (dimensions mgrid);
                bottom = ARef (m_A mgrid) i (j - 1) k i j k (dimensions mgrid)
                           * PRef fluid pc i (j - 1) k (dimensions mgrid);
                back = ARef (m_A mgrid) i j (k - 1) i j k (dimensions mgrid)
                         * PRef fluid pc i j (k - 1) (dimensions mgrid);
                diag = ADiag (m_A mgrid) (m_L mgrid) i j k (dimensions mgrid) subcell;
                e = diag - left * left - bottom * bottom - back * back
            in if diag > 0 then
                 (let e' = (if e < a * diag then diag else e)
                  in setCell pc i j k (1 / sqrt e'))
               else pc)
         else pc)"

definition buildPreconditioner :: "int \<Rightarrow> real grid \<Rightarrow> macgrid \<Rightarrow> int \<Rightarrow> real grid" where
  "buildPreconditioner fluid pc mgrid subcell =
     (let x = cint (vec_x (dimensions mgrid)); y = cint (vec_y (dimensions mgrid));
          z = cint (vec_z (dimensions mgrid))
      in fold (buildPreconditioner_body fluid mgrid subcell x y z) (loop_range (imul (imul x y) z)) pc)"

text \<open>\<open>xRef\<close>: read \<open>X\<close> at the neighbour \<open>p\<close> of the cell \<open>f\<close>, with clamped bounds.\<close>

definition xRef ::
  "geomtype grid \<Rightarrow> real grid \<Rightarrow> real grid \<Rightarrow> vec3 \<Rightarrow> vec3 \<Rightarrow> vec3 \<Rightarrow> int \<Rightarrow> real" where
  "xRef a l X f p dims subcell =
     (let x = cint (vec_x dims); y = cint (vec_y dims); z = cint (vec_z dims);
          i = min (max 0 (cint (vec_x p))) (x - 1); fi = cint (vec_x f);
          j = min (max 0 (cint (vec_y p))) (y - 1); fj = cint (vec_y f);
          k = min (max 0 (cint (vec_z p))) (z - 1); fk = cint (vec_z f)
      in if getCell a i j k = FLUID then getCell X i j k
         else if getCell a i j k = SOLID then getCell X fi fj fk
         else if subcell \<noteq> 0
           then getCell l i j k / min (1 / 10 ^ 6) (getCell l fi fj fk) * getCell X fi fj fk
         else 0)"

text \<open>\<open>op\<close>: \<open>target = X + alpha*Y\<close> on the fluid cells, 0 elsewhere.\<close>

definition op_body ::
  "geomtype grid \<Rightarrow> real grid \<Rightarrow> real grid \<Rightarrow> real \<Rightarrow> int \<Rightarrow> int \<Rightarrow> int \<Rightarrow> int
     \<Rightarrow> real grid \<Rightarrow> real grid" where
  "op_body a X Y alpha x y z gn target =
     (let i = gn_i x y z gn; j = gn_j x y z gn; k = gn_k x y z gn
      in if getCell a i j k = FLUID
         then (let targetval = getCell X i j k + alpha * getCell Y i j k
               in setCell target i j k targetval)
         else setCell target i j k 0)"

definition op ::
  "geomtype grid \<Rightarrow> real grid \<Rightarrow> real grid \<Rightarrow> real grid \<Rightarrow> real \<Rightarrow> vec3 \<Rightarrow> real grid" where
  "op a X Y target alpha dims =
     (let x = cint (vec_x dims); y = cint (vec_y dims); z = cint (vec_z dims)
      in fold (op_body a X Y alpha x y z) (loop_range (imul (imul x y) z)) target)"

text \<open>\<open>computeAx\<close>: \<open>target = AX\<close>.\<close>

definition computeAx_body ::
  "geomtype grid \<Rightarrow> real grid \<Rightarrow> real grid \<Rightarrow> vec3 \<Rightarrow> int \<Rightarrow> real \<Rightarrow> int \<Rightarrow> int \<Rightarrow> int
     \<Rightarrow> int \<Rightarrow> real grid \<Rightarrow> real grid" where
  "computeAx_body a l X dims subcell h x y z gn target =
     (let i = gn_i x y z gn; j = gn_j x y z gn; k = gn_k x y z gn;
          c = vec3 (of_int i) (of_int j) (of_int k)
      in if getCell a i j k = FLUID
         then (let result = (6 * getCell X i j k
                   - xRef a l X c (vec3 (of_int (i + 1)) (of_int j) (of_int k)) dims subcell
                   - xRef a l X c (vec3 (of_int (i - 1)) (of_int j) (of_int k)) dims subcell
                   - xRef a l X c (vec3 (of_int i) (of_int (j + 1)) (of_int k)) dims subcell
                   - xRef a l X c (vec3 (of_int i) (of_int (j - 1)) (of_int k)) dims subcell
                   - xRef a l X c (vec3 (of_int i) (of_int j) (of_int (k + 1))) dims subcell
                   - xRef a l X c (vec3 (of_int i) (of_int j) (of_int (k - 1))) dims subcell) / h
               in setCell target i j k result)
         else setCell target i j k 0)"

definition computeAx ::
  "geomtype grid \<Rightarrow> real grid \<Rightarrow> real grid \<Rightarrow> real grid \<Rightarrow> vec3 \<Rightarrow> int \<Rightarrow> real grid" where
  "computeAx a l X target dims subcell =
     (let x = cint (vec_x dims); y = cint (vec_y dims); z = cint (vec_z dims);
          n = (of_int (max (max x y) z) :: real);
          h = 1 / (n * n)
      in fold (computeAx_body a l X dims subcell h x y z) (loop_range (imul (imul x y) z)) target)"

text \<open>
  \<open>solveConjugateGradient\<close> allocates three grids \<open>r\<close>, \<open>z\<close>, \<open>s\<close> with background 0,
  computes \<open>z = A P\<close> and \<open>r = D - z\<close>, and returns. The model returns the \<open>macgrid\<close>
  together with the three local grids, which the program leaves on the heap.
\<close>

record cg_locals =
  cg_r :: "real grid"
  cg_z :: "real grid"
  cg_s :: "real grid"

definition solveConjugateGradient :: "macgrid \<Rightarrow> real grid \<Rightarrow> int \<Rightarrow> macgrid \<times> cg_locals" where
  "solveConjugateGradient mgrid pc subcell =
     (let r = (\<lambda>_. 0); z = (\<lambda>_. 0); s = (\<lambda>_. 0);
          z = computeAx (m_A mgrid) (m_L mgrid) (m_P mgrid) z (dimensions mgrid) subcell;
          r = op (m_A mgrid) (m_D mgrid) z r (- 1) (dimensions mgrid)
      in (mgrid, \<lparr>cg_r = r, cg_z = z, cg_s = s\<rparr>))"

text \<open>\<open>solve\<close>: negate the divergence, build the preconditioner, call the solver.\<close>

definition solve :: "int \<Rightarrow> macgrid \<Rightarrow> int \<Rightarrow> macgrid" where
  "solve fluid mgrid subcell =
     (let mgrid = mgrid\<lparr>m_D := flipGrid (m_D mgrid) (dimensions mgrid)\<rparr>;
          preconditioner = (\<lambda>_. 0);
          preconditioner = buildPreconditioner fluid preconditioner mgrid subcell
      in fst (solveConjugateGradient mgrid preconditioner subcell))"

section \<open>The pressure solver on the heap\<close>

text \<open>
  The functions above compute on the contents of the grids. The program passes grids by
  pointer, \<open>floatgrid*\<close> and \<open>intgrid*\<close>, and \<open>new floatgrid(0.0f)\<close> allocates one. For
  what a call writes and what it leaves alone, the same functions are given here on a
  heap: a pointer is an address, a loop iteration reads the grids it needs from the heap
  as it is at that iteration and writes its target in the heap, and an allocation takes
  the next unused address. \<open>delete\<close> is not modelled: a freed address is not used again.
\<close>

type_synonym addr = nat

record heap =
  floatgrids :: "addr \<Rightarrow> real grid"
  intgrids :: "addr \<Rightarrow> geomtype grid"
  brk :: addr

definition new_floatgrid :: "real \<Rightarrow> heap \<Rightarrow> addr \<times> heap" where
  "new_floatgrid background h =
     (brk h, h\<lparr>floatgrids := (floatgrids h)(brk h := (\<lambda>_. background)), brk := Suc (brk h)\<rparr>)"

text \<open>The \<open>macgrid\<close> as the program has it: its dimensions and seven pointers.\<close>

record macgrid_ptrs =
  p_dimensions :: vec3
  p_u_x :: addr
  p_u_y :: addr
  p_u_z :: addr
  p_P :: addr
  p_D :: addr
  p_A :: addr
  p_L :: addr

text \<open>The contents of a \<open>macgrid\<close> in a heap.\<close>

definition deref :: "heap \<Rightarrow> macgrid_ptrs \<Rightarrow> macgrid" where
  "deref h mgrid =
     \<lparr>dimensions = p_dimensions mgrid,
      m_u_x = floatgrids h (p_u_x mgrid), m_u_y = floatgrids h (p_u_y mgrid),
      m_u_z = floatgrids h (p_u_z mgrid), m_P = floatgrids h (p_P mgrid),
      m_D = floatgrids h (p_D mgrid), m_A = intgrids h (p_A mgrid),
      m_L = floatgrids h (p_L mgrid)\<rparr>"

definition flipGrid_heap :: "addr \<Rightarrow> vec3 \<Rightarrow> heap \<Rightarrow> heap" where
  "flipGrid_heap grid dims h =
     (let x = cint (vec_x dims); y = cint (vec_y dims); z = cint (vec_z dims)
      in fold (\<lambda>gn h. h\<lparr>floatgrids := (floatgrids h)
                          (grid := flipGrid_body x y z gn (floatgrids h grid))\<rparr>)
           (loop_range (imul (imul x y) z)) h)"

definition buildPreconditioner_heap :: "int \<Rightarrow> addr \<Rightarrow> macgrid_ptrs \<Rightarrow> int \<Rightarrow> heap \<Rightarrow> heap" where
  "buildPreconditioner_heap fluid pc mgrid subcell h =
     (let x = cint (vec_x (p_dimensions mgrid)); y = cint (vec_y (p_dimensions mgrid));
          z = cint (vec_z (p_dimensions mgrid))
      in fold (\<lambda>gn h. h\<lparr>floatgrids := (floatgrids h)
                          (pc := buildPreconditioner_body fluid (deref h mgrid) subcell x y z gn
                                   (floatgrids h pc))\<rparr>)
           (loop_range (imul (imul x y) z)) h)"

definition op_heap :: "addr \<Rightarrow> addr \<Rightarrow> addr \<Rightarrow> addr \<Rightarrow> real \<Rightarrow> vec3 \<Rightarrow> heap \<Rightarrow> heap" where
  "op_heap a X Y target alpha dims h =
     (let x = cint (vec_x dims); y = cint (vec_y dims); z = cint (vec_z dims)
      in fold (\<lambda>gn h. h\<lparr>floatgrids := (floatgrids h)
                          (target := op_body (intgrids h a) (floatgrids h X) (floatgrids h Y)
                                       alpha x y z gn (floatgrids h target))\<rparr>)
           (loop_range (imul (imul x y) z)) h)"

definition computeAx_heap :: "addr \<Rightarrow> addr \<Rightarrow> addr \<Rightarrow> addr \<Rightarrow> vec3 \<Rightarrow> int \<Rightarrow> heap \<Rightarrow> heap" where
  "computeAx_heap a l X target dims subcell h =
     (let x = cint (vec_x dims); y = cint (vec_y dims); z = cint (vec_z dims);
          n = (of_int (max (max x y) z) :: real);
          hh = 1 / (n * n)
      in fold (\<lambda>gn h. h\<lparr>floatgrids := (floatgrids h)
                          (target := computeAx_body (intgrids h a) (floatgrids h l)
                                       (floatgrids h X) dims subcell hh x y z gn
                                       (floatgrids h target))\<rparr>)
           (loop_range (imul (imul x y) z)) h)"

definition solveConjugateGradient_heap :: "macgrid_ptrs \<Rightarrow> addr \<Rightarrow> int \<Rightarrow> heap \<Rightarrow> heap" where
  "solveConjugateGradient_heap mgrid pc subcell h =
     (case new_floatgrid 0 h of (r, h) \<Rightarrow>
      case new_floatgrid 0 h of (z, h) \<Rightarrow>
      case new_floatgrid 0 h of (s, h) \<Rightarrow>
        (let h = computeAx_heap (p_A mgrid) (p_L mgrid) (p_P mgrid) z (p_dimensions mgrid)
                   subcell h
         in op_heap (p_A mgrid) (p_D mgrid) z r (- 1) (p_dimensions mgrid) h))"

definition solve_heap :: "int \<Rightarrow> macgrid_ptrs \<Rightarrow> int \<Rightarrow> heap \<Rightarrow> heap" where
  "solve_heap fluid mgrid subcell h =
     (let h = flipGrid_heap (p_D mgrid) (p_dimensions mgrid) h
      in case new_floatgrid 0 h of (preconditioner, h) \<Rightarrow>
           (let h = buildPreconditioner_heap fluid preconditioner mgrid subcell h
            in solveConjugateGradient_heap mgrid preconditioner subcell h))"

section \<open>Vectors\<close>

text \<open>The operators of \<open>glm::vec3\<close>: \<open>a + b\<close>, \<open>a - b\<close> and \<open>-a\<close> are componentwise.\<close>

instantiation vec3 :: "{plus, minus, uminus}"
begin

definition plus_vec3 :: "vec3 \<Rightarrow> vec3 \<Rightarrow> vec3" where
  "plus_vec3 a b = vec3 (vec_x a + vec_x b) (vec_y a + vec_y b) (vec_z a + vec_z b)"

definition minus_vec3 :: "vec3 \<Rightarrow> vec3 \<Rightarrow> vec3" where
  "minus_vec3 a b = vec3 (vec_x a - vec_x b) (vec_y a - vec_y b) (vec_z a - vec_z b)"

definition uminus_vec3 :: "vec3 \<Rightarrow> vec3" where
  "uminus_vec3 a = vec3 (- vec_x a) (- vec_y a) (- vec_z a)"

instance ..

end

text \<open>\<open>v * a\<close>, \<open>a * v\<close> and \<open>v / a\<close> for a vector \<open>v\<close> and a float \<open>a\<close>.\<close>

definition vscale :: "vec3 \<Rightarrow> real \<Rightarrow> vec3" where
  "vscale v a = vec3 (vec_x v * a) (vec_y v * a) (vec_z v * a)"

definition scalev :: "real \<Rightarrow> vec3 \<Rightarrow> vec3" where
  "scalev a v = vec3 (a * vec_x v) (a * vec_y v) (a * vec_z v)"

definition vdiv :: "vec3 \<Rightarrow> real \<Rightarrow> vec3" where
  "vdiv v a = vec3 (vec_x v / a) (vec_y v / a) (vec_z v / a)"

text \<open>\<open>glm::vec3(r)\<close>, \<open>glm::dot\<close>, \<open>glm::length\<close>, and componentwise \<open>glm::max\<close>, \<open>glm::min\<close>.\<close>

definition splat :: "real \<Rightarrow> vec3" where
  "splat r = vec3 r r r"

definition dot :: "vec3 \<Rightarrow> vec3 \<Rightarrow> real" where
  "dot a b = vec_x a * vec_x b + vec_y a * vec_y b + vec_z a * vec_z b"

definition length3 :: "vec3 \<Rightarrow> real" where
  "length3 v = sqrt (dot v v)"

definition max3 :: "vec3 \<Rightarrow> vec3 \<Rightarrow> vec3" where
  "max3 a b = vec3 (max (vec_x a) (vec_x b)) (max (vec_y a) (vec_y b)) (max (vec_z a) (vec_z b))"

definition min3 :: "vec3 \<Rightarrow> vec3 \<Rightarrow> vec3" where
  "min3 a b = vec3 (min (vec_x a) (vec_x b)) (min (vec_y a) (vec_y b)) (min (vec_z a) (vec_z b))"

text \<open>
  \<open>glm::normalize(v)\<close> is \<open>v * inversesqrt(dot(v, v))\<close>. For the zero vector the
  factor is an infinity and every component \<open>0 * inf\<close> is a NaN, so is the length of the
  result, and the test \<open>raynulltest==raynulltest\<close> of the program fails. Where the
  program makes this test the direction is computed by \<open>normalize_nan\<close>, with \<open>None\<close>
  for the NaN vector. Where the program uses the result untested the model uses
  \<open>normalize3\<close>, which is the program's value for every vector but zero; the theorems
  that depend on it keep its argument away from zero.
\<close>

definition normalize3 :: "vec3 \<Rightarrow> vec3" where
  "normalize3 v = vscale v (1 / sqrt (dot v v))"

definition normalize_nan :: "vec3 \<Rightarrow> vec3 option" where
  "normalize_nan v = (if dot v v = 0 then None else Some (normalize3 v))"

section \<open>Particles, the scene and the simulation\<close>

text \<open>
  The members of \<open>Particle\<close> that the functions below read or write (its declaration is
  not part of the sources at hand).
\<close>

record Particle =
  m_p :: vec3
  m_u :: vec3
  m_n :: vec3
  m_type :: geomtype
  m_pt :: vec3
  m_ut :: vec3
  m_t :: vec3
  m_temp :: bool
  m_temp2 :: bool

record Ray =
  m_origin :: vec3
  m_direction :: vec3
  m_frame :: real

record Intersection =
  m_hit :: bool
  m_point :: vec3
  m_normal :: vec3

text \<open>
  The queries of \<open>Scene\<close> that the simulation calls. The header declares them; what
  they compute depends on the geometry, so they are fields of the scene.
\<close>

record Scene =
  IntersectSolidGeoms :: "Ray \<Rightarrow> Intersection"
  CheckPointInsideSolidGeom :: "vec3 \<Rightarrow> real \<Rightarrow> bool"
  GetExternalForces :: "vec3 list"

text \<open>
  The particle grid holds pointers to the particles: \<open>GetCellNeighbors(cell, radius)\<close>
  returns the particles around a cell, here as their positions in \<open>m_particles\<close>.
\<close>

type_synonym ParticleGrid = "vec3 \<Rightarrow> vec3 \<Rightarrow> nat list"

definition GetCellNeighbors :: "ParticleGrid \<Rightarrow> vec3 \<Rightarrow> vec3 \<Rightarrow> nat list" where
  "GetCellNeighbors pgrid c r = pgrid c r"

record FlipSim =
  m_dimensions :: vec3
  m_density :: real
  m_stepsize :: real
  m_frame_count :: int
  m_mgrid :: macgrid
  m_pgrid :: ParticleGrid
  m_particles :: "Particle list"
  m_scene :: Scene

text \<open>\<open>Grid<T>::GetCell\<close> and \<open>Grid<T>::SetCell\<close>, on the same model of a grid.\<close>

definition GetCell :: "'a grid \<Rightarrow> int \<Rightarrow> int \<Rightarrow> int \<Rightarrow> 'a" where
  "GetCell g i j k = g (i, j, k)"

definition SetCell :: "'a grid \<Rightarrow> int \<Rightarrow> int \<Rightarrow> int \<Rightarrow> 'a \<Rightarrow> 'a grid" where
  "SetCell g i j k v = g((i, j, k) := v)"

text \<open>\<open>maxd = glm::max(glm::max(m_dimensions.x, m_dimensions.z), m_dimensions.y)\<close>.\<close>

definition maxd_of :: "vec3 \<Rightarrow> real" where
  "maxd_of d = max (max (vec_x d) (vec_z d)) (vec_y d)"

text \<open>The conversion \<open>(unsigned int)f\<close> of a non-negative float.\<close>

definition cuint :: "real \<Rightarrow> nat" where
  "cuint r = nat (cint r)"

subsection \<open>StoreTempParticleVelocities\<close>

definition StoreTempParticleVelocities :: "FlipSim \<Rightarrow> FlipSim" where
  "StoreTempParticleVelocities sim =
     sim\<lparr>m_particles := map (\<lambda>pa. pa\<lparr>m_pt := m_p pa, m_ut := m_u pa\<rparr>) (m_particles sim)\<rparr>"

subsection \<open>ApplyExternalForces\<close>

definition ApplyExternalForces_body :: "vec3 list \<Rightarrow> real \<Rightarrow> Particle \<Rightarrow> Particle" where
  "ApplyExternalForces_body externalForces stepsize pa =
     fold (\<lambda>f pa. pa\<lparr>m_u := m_u pa + vscale f stepsize\<rparr>) externalForces pa"

definition ApplyExternalForces :: "FlipSim \<Rightarrow> FlipSim" where
  "ApplyExternalForces sim =
     (let externalForces = GetExternalForces (m_scene sim)
      in sim\<lparr>m_particles :=
               map (ApplyExternalForces_body externalForces (m_stepsize sim)) (m_particles sim)\<rparr>)"

subsection \<open>CheckParticleSolidConstraints\<close>

text \<open>
  One iteration of the loop over the particles: it reads and writes the particle
  \<open>m_particles[p]\<close> only.
\<close>

definition CheckParticleSolidConstraints_body ::
  "Scene \<Rightarrow> real \<Rightarrow> real \<Rightarrow> real \<Rightarrow> Particle \<Rightarrow> Particle" where
  "CheckParticleSolidConstraints_body scene maxd frame stepsize pa =
     (if m_type pa = FLUID then
        (case normalize_nan (m_p pa - m_pt pa) of
           None \<Rightarrow> pa
         | Some direction \<Rightarrow>
            (let r = \<lparr>m_origin = vscale (m_pt pa) maxd, m_direction = direction,
                      m_frame = frame\<rparr>;
                 d = length3 (m_p pa - m_pt pa);
                 hit = IntersectSolidGeoms scene r;
                 u_dir = length3 (m_ut pa);
                 pa = (if m_hit hit then
                         (let solidDistance = length3 (m_origin r - m_point hit);
                              velocityDistance = length3 (m_p pa - m_pt pa) * maxd
                          in if solidDistance < velocityDistance then
                               (let pa = pa\<lparr>m_p := vdiv (m_origin r
                                           + vscale (vscale (m_direction r) (9 / 10)) solidDistance)
                                           maxd\<rparr>;
                                    pa = pa\<lparr>m_u := scalev (2 * dot (m_direction r) (m_normal hit))
                                                     (m_normal hit)
                                                   - normalize3 (m_direction r)\<rparr>
                                in pa\<lparr>m_u := vscale (normalize3 (m_u pa)) u_dir\<rparr>)
                             else pa)
                       else pa);
                 r = r\<lparr>m_origin := vscale (m_p pa) maxd\<rparr>
             in if CheckPointInsideSolidGeom scene (m_origin r) frame then
                  (let pa = pa\<lparr>m_u := vscale (- normalize3 (m_direction r)) u_dir\<rparr>
                   in pa\<lparr>m_p := m_pt pa + vscale (m_u pa) stepsize\<rparr>)
                else pa))
      else pa)"

definition CheckParticleSolidConstraints :: "FlipSim \<Rightarrow> FlipSim" where
  "CheckParticleSolidConstraints sim =
     (let maxd = maxd_of (m_dimensions sim)
      in sim\<lparr>m_particles :=
               map (CheckParticleSolidConstraints_body (m_scene sim) maxd
                      (of_int (m_frame_count sim)) (m_stepsize sim)) (m_particles sim)\<rparr>)"

subsection \<open>AdjustParticlesStuckInSolids\<close>

definition particleInSolidCheck :: "Scene \<Rightarrow> real \<Rightarrow> real \<Rightarrow> Particle \<Rightarrow> bool" where
  "particleInSolidCheck scene maxd frame pa =
     (if m_type pa = FLUID
      then (let point = vscale (m_p pa) maxd in CheckPointInsideSolidGeom scene point frame)
      else False)"

text \<open>The raycast-and-place loop, one stuck particle at a time.\<close>

definition AdjustParticlesStuckInSolids_raycast ::
  "Scene \<Rightarrow> real \<Rightarrow> real \<Rightarrow> Particle \<Rightarrow> Particle" where
  "AdjustParticlesStuckInSolids_raycast scene maxd frame sp =
     (case normalize_nan (m_p sp - m_pt sp) of
        None \<Rightarrow> sp
      | Some direction \<Rightarrow>
         (let r = \<lparr>m_origin = vscale (m_pt sp) maxd, m_direction = direction,
                   m_frame = frame\<rparr>;
              d = length3 (m_p sp - m_pt sp);
              hit = IntersectSolidGeoms scene r;
              nearestDistance = length3 (m_origin r - m_point hit);
              sp = sp\<lparr>m_p := vdiv (m_origin r
                          + vscale (vscale (m_direction r) (105 / 100)) nearestDistance) maxd\<rparr>
          in sp\<lparr>m_u := vscale (normalize3 (m_direction r)) d\<rparr>))"

definition AdjustParticlesStuckInSolids_loop ::
  "Scene \<Rightarrow> real \<Rightarrow> real \<Rightarrow> nat list \<Rightarrow> Particle list \<Rightarrow> Particle list" where
  "AdjustParticlesStuckInSolids_loop scene maxd frame stuckParticles ps =
     fold (\<lambda>p ps. ps[p := AdjustParticlesStuckInSolids_raycast scene maxd frame (ps ! p)])
       stuckParticles ps"

text \<open>
  The whole function. \<open>LevelSet::ProjectPointsToSurface\<close> is not part of the sources at
  hand: it is the parameter \<open>ProjectPointsToSurface\<close>, which receives the stuck
  particles (their positions in the array), \<open>maxd\<close> and the particles, and returns the
  particles.
\<close>

definition AdjustParticlesStuckInSolids ::
  "(nat list \<Rightarrow> real \<Rightarrow> Particle list \<Rightarrow> Particle list) \<Rightarrow> FlipSim \<Rightarrow> FlipSim" where
  "AdjustParticlesStuckInSolids ProjectPointsToSurface sim =
     (let maxd = maxd_of (m_dimensions sim);
          frame = of_int (m_frame_count sim);
          particleCount = length (m_particles sim);
          particleInSolidChecks =
            map (particleInSolidCheck (m_scene sim) maxd frame) (m_particles sim);
          ps = map (\<lambda>pa. if m_type pa = FLUID then pa\<lparr>m_temp := False, m_temp2 := False\<rparr>
                          else pa) (m_particles sim);
          stuckParticles = filter (\<lambda>p. particleInSolidChecks ! p) [0..<particleCount];
          ps = fold (\<lambda>p ps. ps[p := (ps ! p)\<lparr>m_pt := m_p (ps ! p)\<rparr>]) stuckParticles ps;
          ps = ProjectPointsToSurface stuckParticles maxd ps;
          ps = AdjustParticlesStuckInSolids_loop (m_scene sim) maxd frame stuckParticles ps
      in sim\<lparr>m_particles := ps\<rparr>)"

subsection \<open>AdvectParticles\<close>

text \<open>The inner loop over the neighbours \<open>np\<close> of the particle \<open>p\<close>: one neighbour.\<close>

definition AdvectParticles_push :: "real \<Rightarrow> Particle \<Rightarrow> Particle \<Rightarrow> Particle" where
  "AdvectParticles_push re np p =
     (if m_type np = SOLID then
        (let dist = length3 (m_p p - m_p np)
         in if dist < re then
              (let normal = m_n np;
                   normal = (if length3 normal < 1 / 10 ^ 7 \<and> dist \<noteq> 0
                             then normalize3 (m_p p - m_p np) else normal);
                   p = p\<lparr>m_p := m_p p + scalev (re - dist) normal\<rparr>
               in p\<lparr>m_u := m_u p - scalev (dot (m_u p) normal) normal\<rparr>)
            else p)
      else p)"

text \<open>
  One iteration of the second loop, on the particle array: the particle \<open>p0\<close> is
  clamped, and pushed by each of its neighbours, which are read from the array.
\<close>

definition AdvectParticles_constrain ::
  "nat \<Rightarrow> nat \<Rightarrow> nat \<Rightarrow> real \<Rightarrow> real \<Rightarrow> ParticleGrid \<Rightarrow> nat \<Rightarrow> Particle list
     \<Rightarrow> Particle list" where
  "AdvectParticles_constrain x y z maxd density pgrid p0 ps =
     (let r = 1 / maxd;
          ps = (if m_type (ps ! p0) = FLUID
                then ps[p0 := (ps ! p0)\<lparr>m_p := max3 (splat r)
                                                   (min3 (splat (1 - r)) (m_p (ps ! p0)))\<rparr>]
                else ps)
      in if m_type (ps ! p0) = FLUID then
           (let i = cuint (min (real x - 1) (vec_x (m_p (ps ! p0)) * maxd));
                j = cuint (min (real y - 1) (vec_y (m_p (ps ! p0)) * maxd));
                k = cuint (min (real z - 1) (vec_z (m_p (ps ! p0)) * maxd));
                neighbors = GetCellNeighbors pgrid (vec3 (real i) (real j) (real k)) (splat 1);
                re = 15 / 10 * density / maxd
            in fold (\<lambda>p1 ps. ps[p0 := AdvectParticles_push re (ps ! p1) (ps ! p0)])
                 neighbors ps)
         else ps)"

text \<open>
  The whole function. \<open>InterpolateVelocity\<close> and \<open>ParticleGrid::Sort\<close> are not part of
  the sources at hand and are parameters. The first loop moves the fluid particles, one
  particle per iteration.
\<close>

definition AdvectParticles_move ::
  "(vec3 \<Rightarrow> macgrid \<Rightarrow> vec3) \<Rightarrow> real \<Rightarrow> macgrid \<Rightarrow> Particle \<Rightarrow> Particle" where
  "AdvectParticles_move InterpolateVelocity stepsize mgrid pa =
     (if m_type pa = FLUID
      then (let velocity = InterpolateVelocity (m_p pa) mgrid
            in pa\<lparr>m_p := m_p pa + scalev stepsize velocity\<rparr>)
      else pa)"

definition AdvectParticles ::
  "(vec3 \<Rightarrow> macgrid \<Rightarrow> vec3) \<Rightarrow> (Particle list \<Rightarrow> ParticleGrid) \<Rightarrow> FlipSim \<Rightarrow> FlipSim" where
  "AdvectParticles InterpolateVelocity Sort sim =
     (let x = cuint (vec_x (m_dimensions sim)); y = cuint (vec_y (m_dimensions sim));
          z = cuint (vec_z (m_dimensions sim));
          maxd = maxd_of (m_dimensions sim);
          particleCount = length (m_particles sim);
          ps = map (AdvectParticles_move InterpolateVelocity (m_stepsize sim) (m_mgrid sim))
                 (m_particles sim);
          pgrid = Sort ps;
          ps = fold (AdvectParticles_constrain x y z maxd (m_density sim) pgrid)
                 [0..<particleCount] ps
      in sim\<lparr>m_pgrid := pgrid, m_particles := ps\<rparr>)"

subsection \<open>ExtrapolateVelocity\<close>

text \<open>
  The counters of this function are \<open>unsigned int\<close>: \<open>n - 1\<close> wraps around at 0. The
  resolutions are taken to be below \<open>2^32 - 1\<close>, so that \<open>n + 1\<close> does not wrap.
\<close>

definition usub1 :: "nat \<Rightarrow> nat" where
  "usub1 n = (n + 2 ^ 32 - 1) mod 2 ^ 32"

text \<open>The cells of three nested loops \<open>i < nx\<close>, \<open>j < ny\<close>, \<open>k < nz\<close>, in their order.\<close>

definition loop3 :: "nat \<Rightarrow> nat \<Rightarrow> nat \<Rightarrow> (nat \<times> nat \<times> nat) list" where
  "loop3 nx ny nz =
     concat (map (\<lambda>i. concat (map (\<lambda>j. map (\<lambda>k. (i, j, k)) [0..<nz]) [0..<ny])) [0..<nx])"

definition mark_x_body ::
  "geomtype grid \<Rightarrow> nat \<Rightarrow> nat \<times> nat \<times> nat \<Rightarrow> int grid list \<times> int grid list
     \<Rightarrow> int grid list \<times> int grid list" where
  "mark_x_body a x c mw =
     (case c of (i, j, k) \<Rightarrow> case mw of (mark, wallmark) \<Rightarrow>
        (mark[0 := SetCell (mark ! 0) (int i) (int j) (int k)
            (of_bool ((i > 0 \<and> GetCell a (int i - 1) (int j) (int k) = FLUID)
                      \<or> (i < x \<and> GetCell a (int i) (int j) (int k) = FLUID)))],
         wallmark[0 := SetCell (wallmark ! 0) (int i) (int j) (int k)
            (of_bool ((i \<le> 0 \<or> GetCell a (int i - 1) (int j) (int k) = SOLID)
                      \<and> (i \<ge> x \<or> GetCell a (int i) (int j) (int k) = SOLID)))]))"

definition mark_y_body ::
  "geomtype grid \<Rightarrow> nat \<Rightarrow> nat \<times> nat \<times> nat \<Rightarrow> int grid list \<times> int grid list
     \<Rightarrow> int grid list \<times> int grid list" where
  "mark_y_body a y c mw =
     (case c of (i, j, k) \<Rightarrow> case mw of (mark, wallmark) \<Rightarrow>
        (mark[1 := SetCell (mark ! 1) (int i) (int j) (int k)
            (of_bool ((j > 0 \<and> GetCell a (int i) (int j - 1) (int k) = FLUID)
                      \<or> (j < y \<and> GetCell a (int i) (int j) (int k) = FLUID)))],
         wallmark[1 := SetCell (wallmark ! 1) (int i) (int j) (int k)
            (of_bool ((j \<le> 0 \<or> GetCell a (int i) (int j - 1) (int k) = SOLID)
                      \<and> (j \<ge> y \<or> GetCell a (int i) (int j) (int k) = SOLID)))]))"

definition mark_z_body ::
  "geomtype grid \<Rightarrow> nat \<Rightarrow> nat \<times> nat \<times> nat \<Rightarrow> int grid list \<times> int grid list
     \<Rightarrow> int grid list \<times> int grid list" where
  "mark_z_body a z c mw =
     (case c of (i, j, k) \<Rightarrow> case mw of (mark, wallmark) \<Rightarrow>
        (mark[2 := SetCell (mark ! 2) (int i) (int j) (int k)
            (of_bool ((k > 0 \<and> GetCell a (int i) (int j) (int k - 1) = FLUID)
                      \<or> (k < z \<and> GetCell a (int i) (int j) (int k) = FLUID)))],
         wallmark[2 := SetCell (wallmark ! 2) (int i) (int j) (int k)
            (of_bool ((k \<le> 0 \<or> GetCell a (int i) (int j) (int k - 1) = SOLID)
                      \<and> (k \<ge> z \<or> GetCell a (int i) (int j) (int k) = SOLID)))]))"

text \<open>
  The loop over the six neighbours \<open>q[qk]\<close> of a face: one neighbour. The float
  \<open>sum\<close> of the program is \<open>fsum\<close> here.
\<close>

definition ExtrapolateVelocity_sum ::
  "int grid list \<Rightarrow> macgrid \<Rightarrow> nat \<Rightarrow> nat \<Rightarrow> nat \<Rightarrow> nat \<Rightarrow> vec3 \<Rightarrow> nat \<times> real
     \<Rightarrow> nat \<times> real" where
  "ExtrapolateVelocity_sum mark mgrid x y z n q ws =
     (case ws of (wsum, fsum) \<Rightarrow>
        if vec_x q \<ge> 0 \<and> vec_x q < real (x + of_bool (n = 0)) \<and> vec_y q \<ge> 0
           \<and> vec_y q < real (y + of_bool (n = 1)) \<and> vec_z q \<ge> 0
           \<and> vec_z q < real (z + of_bool (n = 2))
        then if GetCell (mark ! n) (cint (vec_x q)) (cint (vec_y q)) (cint (vec_z q)) \<noteq> 0
             then (let wsum = wsum + 1
                   in if n = 0
                      then (wsum, fsum + GetCell (m_u_x mgrid) (cint (vec_x q)) (cint (vec_y q))
                                          (cint (vec_z q)))
                      else if n = 1
                      then (wsum, fsum + GetCell (m_u_y mgrid) (cint (vec_x q)) (cint (vec_y q))
                                          (cint (vec_z q)))
                      else if n = 2
                      then (wsum, fsum + GetCell (m_u_z mgrid) (cint (vec_x q)) (cint (vec_y q))
                                          (cint (vec_z q)))
                      else (wsum, fsum))
             else (wsum, fsum)
        else (wsum, fsum))"

text \<open>The body of the innermost loop, for the face \<open>(i,j,k)\<close> of the field \<open>n\<close>.\<close>

definition ExtrapolateVelocity_face ::
  "nat \<Rightarrow> nat \<Rightarrow> nat \<Rightarrow> int grid list \<Rightarrow> int grid list \<Rightarrow> (nat \<times> nat \<times> nat) \<times> nat
     \<Rightarrow> macgrid \<Rightarrow> macgrid" where
  "ExtrapolateVelocity_face x y z mark wallmark f mgrid =
     (case f of ((i, j, k), n) \<Rightarrow>
        if n \<noteq> 0 \<and> i > usub1 x then mgrid
        else if n \<noteq> 1 \<and> j > usub1 y then mgrid
        else if n \<noteq> 2 \<and> k > usub1 z then mgrid
        else if GetCell (mark ! n) (int i) (int j) (int k) = 0
                \<and> GetCell (wallmark ! n) (int i) (int j) (int k) \<noteq> 0
        then (let q = [vec3 (real (usub1 i)) (real j) (real k),
                       vec3 (real (i + 1)) (real j) (real k),
                       vec3 (real i) (real (usub1 j)) (real k),
                       vec3 (real i) (real (j + 1)) (real k),
                       vec3 (real i) (real j) (real (usub1 k)),
                       vec3 (real i) (real j) (real (k + 1))];
                  ws = fold (ExtrapolateVelocity_sum mark mgrid x y z n) q (0, 0);
                  wsum = fst ws; fsum = snd ws
              in if wsum \<noteq> 0
                 then (if n = 0
                       then mgrid\<lparr>m_u_x := SetCell (m_u_x mgrid) (int i) (int j) (int k)
                                               (fsum / real wsum)\<rparr>
                       else if n = 1
                       then mgrid\<lparr>m_u_y := SetCell (m_u_y mgrid) (int i) (int j) (int k)
                                               (fsum / real wsum)\<rparr>
                       else if n = 2
                       then mgrid\<lparr>m_u_z := SetCell (m_u_z mgrid) (int i) (int j) (int k)
                                               (fsum / real wsum)\<rparr>
                       else mgrid)
                 else mgrid)
        else mgrid)"

text \<open>The temporary grids \<open>mark\<close> and \<open>wallmark\<close>, from the markers and the resolution.\<close>

definition ExtrapolateVelocity_marks ::
  "geomtype grid \<Rightarrow> nat \<Rightarrow> nat \<Rightarrow> nat \<Rightarrow> int grid list \<times> int grid list" where
  "ExtrapolateVelocity_marks a x y z =
     (let mw = ([\<lambda>_. 0, \<lambda>_. 0, \<lambda>_. 0], [\<lambda>_. 0, \<lambda>_. 0, \<lambda>_. 0]);
          mw = fold (mark_x_body a x) (loop3 (x + 1) y z) mw;
          mw = fold (mark_y_body a y) (loop3 x (y + 1) z) mw
      in fold (mark_z_body a z) (loop3 x y (z + 1)) mw)"

definition ExtrapolateVelocity_faces :: "nat \<Rightarrow> nat \<Rightarrow> nat \<Rightarrow> ((nat \<times> nat \<times> nat) \<times> nat) list" where
  "ExtrapolateVelocity_faces x y z =
     concat (map (\<lambda>c. map (\<lambda>n. (c, n)) [0..<3]) (loop3 (x + 1) (y + 1) (z + 1)))"

definition ExtrapolateVelocity :: "FlipSim \<Rightarrow> FlipSim" where
  "ExtrapolateVelocity sim =
     (let x = cuint (vec_x (m_dimensions sim)); y = cuint (vec_y (m_dimensions sim));
          z = cuint (vec_z (m_dimensions sim));
          mw = ExtrapolateVelocity_marks (m_A (m_mgrid sim)) x y z;
          mark = fst mw; wallmark = snd mw
      in sim\<lparr>m_mgrid := fold (ExtrapolateVelocity_face x y z mark wallmark)
                           (ExtrapolateVelocity_faces x y z) (m_mgrid sim)\<rparr>)"

section \<open>Notions used in the proofs about ExtrapolateVelocity\<close>

text \<open>The face field \<open>n\<close> of a grid, and the grid with one face of field \<open>n\<close> written.\<close>

definition ugrid :: "nat \<Rightarrow> macgrid \<Rightarrow> real grid" where
  "ugrid n m = (if n = 0 then m_u_x m else if n = 1 then m_u_y m else m_u_z m)"

definition set_ugrid :: "nat \<Rightarrow> int \<times> int \<times> int \<Rightarrow> real \<Rightarrow> macgrid \<Rightarrow> macgrid" where
  "set_ugrid n c v m =
     (if n = 0 then m\<lparr>m_u_x := (m_u_x m)(c := v)\<rparr>
      else if n = 1 then m\<lparr>m_u_y := (m_u_y m)(c := v)\<rparr>
      else if n = 2 then m\<lparr>m_u_z := (m_u_z m)(c := v)\<rparr>
      else m)"

definition face_cell :: "(nat \<times> nat \<times> nat) \<times> nat \<Rightarrow> int \<times> int \<times> int" where
  "face_cell f = (case f of ((i, j, k), n) \<Rightarrow> (int i, int j, int k))"

text \<open>
  The guards of the loop body at a face: the face lies on the field, has no mark and
  has a wall mark. They depend on the temporary grids only.
\<close>

definition face_writes ::
  "nat \<Rightarrow> nat \<Rightarrow> nat \<Rightarrow> int grid list \<Rightarrow> int grid list \<Rightarrow> (nat \<times> nat \<times> nat) \<times> nat
     \<Rightarrow> bool" where
  "face_writes x y z mark wallmark f =
     (case f of ((i, j, k), n) \<Rightarrow>
        if n \<noteq> 0 \<and> i > usub1 x then False
        else if n \<noteq> 1 \<and> j > usub1 y then False
        else if n \<noteq> 2 \<and> k > usub1 z then False
        else (mark ! n) (int i, int j, int k) = 0
             \<and> (wallmark ! n) (int i, int j, int k) \<noteq> 0)"

text \<open>The count and the sum over the marked neighbours of a face.\<close>

definition face_value ::
  "nat \<Rightarrow> nat \<Rightarrow> nat \<Rightarrow> int grid list \<Rightarrow> (nat \<times> nat \<times> nat) \<times> nat \<Rightarrow> macgrid
     \<Rightarrow> nat \<times> real" where
  "face_value x y z mark f mgrid =
     (case f of ((i, j, k), n) \<Rightarrow>
        fold (ExtrapolateVelocity_sum mark mgrid x y z n)
          [vec3 (real (usub1 i)) (real j) (real k),
           vec3 (real (i + 1)) (real j) (real k),
           vec3 (real i) (real (usub1 j)) (real k),
           vec3 (real i) (real (j + 1)) (real k),
           vec3 (real i) (real j) (real (usub1 k)),
           vec3 (real i) (real j) (real (k + 1))] (0, 0))"

section \<open>Concrete simulations\<close>

text \<open>
  A scene whose solid is hit by every ray at the point (1,0,0), with the normal
  (-1,0,0), and contains no point; gravity is its one external force.
\<close>

definition wall_scene :: Scene where
  "wall_scene = \<lparr>IntersectSolidGeoms =
       (\<lambda>r. \<lparr>m_hit = True, m_point = vec3 1 0 0, m_normal = vec3 (- 1) 0 0\<rparr>),
     CheckPointInsideSolidGeom = (\<lambda>p frame. False),
     GetExternalForces = [vec3 0 (- 10) 0]\<rparr>"

definition still_grid :: macgrid where
  "still_grid = \<lparr>dimensions = vec3 4 4 4, m_u_x = (\<lambda>_. 0), m_u_y = (\<lambda>_. 0),
     m_u_z = (\<lambda>_. 0), m_P = (\<lambda>_. 0), m_D = (\<lambda>_. 0), m_A = (\<lambda>_. AIR), m_L = (\<lambda>_. 0)\<rparr>"

text \<open>A fluid particle that has moved from the origin to (1,0,0) with speed 5.\<close>

definition moving_particle :: Particle where
  "moving_particle = \<lparr>m_p = vec3 1 0 0, m_u = vec3 5 0 0, m_n = vec3 0 0 0, m_type = FLUID,
     m_pt = vec3 0 0 0, m_ut = vec3 5 0 0, m_t = vec3 0 0 0, m_temp = False,
     m_temp2 = False\<rparr>"

text \<open>A fluid particle that has not moved since its position was stored.\<close>

definition resting_particle :: Particle where
  "resting_particle = \<lparr>m_p = vec3 (1 / 2) (1 / 2) (1 / 2), m_u = vec3 0 1 0,
     m_n = vec3 0 0 0, m_type = FLUID, m_pt = vec3 (1 / 2) (1 / 2) (1 / 2),
     m_ut = vec3 0 1 0, m_t = vec3 0 0 0, m_temp = False, m_temp2 = False\<rparr>"

text \<open>A solid marker particle at rest.\<close>

definition solid_particle :: Particle where
  "solid_particle = \<lparr>m_p = vec3 (3 / 10) (1 / 2) (1 / 2), m_u = vec3 0 0 0,
     m_n = vec3 (- 1) 0 0, m_type = SOLID, m_pt = vec3 (3 / 10) (1 / 2) (1 / 2),
     m_ut = vec3 0 0 0, m_t = vec3 0 0 0, m_temp = False, m_temp2 = False\<rparr>"

definition wall_sim :: FlipSim where
  "wall_sim = \<lparr>m_dimensions = vec3 2 2 2, m_density = 1, m_stepsize = 1 / 10,
     m_frame_count = 1, m_mgrid = still_grid, m_pgrid = (\<lambda>c r. []),
     m_particles = [moving_particle, resting_particle, solid_particle],
     m_scene = wall_scene\<rparr>"

text \<open>
  A fluid particle on the lower x face of the box of a 4 x 4 x 4 simulation, and the
  solid marker particle \<open>solid_particle\<close> at distance 1/20 from it.
\<close>

definition edge_particle :: Particle where
  "edge_particle = \<lparr>m_p = vec3 (1 / 4) (1 / 2) (1 / 2), m_u = vec3 0 0 0,
     m_n = vec3 0 0 0, m_type = FLUID, m_pt = vec3 (1 / 4) (1 / 2) (1 / 2),
     m_ut = vec3 0 0 0, m_t = vec3 0 0 0, m_temp = False, m_temp2 = False\<rparr>"

definition push_sim :: FlipSim where
  "push_sim = \<lparr>m_dimensions = vec3 4 4 4, m_density = 1, m_stepsize = 1,
     m_frame_count = 1, m_mgrid = still_grid, m_pgrid = (\<lambda>c r. []),
     m_particles = [edge_particle, solid_particle], m_scene = wall_scene\<rparr>"

text \<open>The same simulation with the fluid particle in the middle of the box.\<close>

definition free_sim :: FlipSim where
  "free_sim = \<lparr>m_dimensions = vec3 4 4 4, m_density = 1, m_stepsize = 1,
     m_frame_count = 1, m_mgrid = still_grid, m_pgrid = (\<lambda>c r. []),
     m_particles = [resting_particle\<lparr>m_p := vec3 0 (1 / 2) (1 / 2)\<rparr>, solid_particle],
     m_scene = wall_scene\<rparr>"

text \<open>A 1 x 1 x 1 simulation with one fluid particle and no neighbours.\<close>

definition tiny_sim :: FlipSim where
  "tiny_sim = \<lparr>m_dimensions = vec3 1 1 1, m_density = 1, m_stepsize = 1,
     m_frame_count = 1, m_mgrid = still_grid, m_pgrid = (\<lambda>c r. []),
     m_particles = [resting_particle], m_scene = wall_scene\<rparr>"

text \<open>
  A 2 x 1 x 1 simulation: a fluid cell followed by a solid cell, with the x velocity 7 on
  the face between them and 0 on the face behind the solid cell.
\<close>

definition pipe_grid :: macgrid where
  "pipe_grid = \<lparr>dimensions = vec3 2 1 1,
     m_u_x = (\<lambda>c. if c = (1, 0, 0) then 7 else 0), m_u_y = (\<lambda>_. 0),
     m_u_z = (\<lambda>_. 0), m_P = (\<lambda>_. 0), m_D = (\<lambda>_. 0),
     m_A = (\<lambda>c. if c = (0, 0, 0) then FLUID else SOLID), m_L = (\<lambda>_. 0)\<rparr>"

definition pipe_sim :: FlipSim where
  "pipe_sim = \<lparr>m_dimensions = vec3 2 1 1, m_density = 1, m_stepsize = 1,
     m_frame_count = 1, m_mgrid = pipe_grid, m_pgrid = (\<lambda>c r. []),
     m_particles = [], m_scene = wall_scene\<rparr>"

section \<open>Concrete grids\<close>

text \<open>
  A 2 x 1 x 2 grid whose only fluid cell is the corner (0,0,0), next to two air cells;
  divergence 1 everywhere, pressure 0. With \<open>subcell = 0\<close> the row of the matrix at the
  fluid cell is \<open>(6 p - 4 p) / h = 8 p\<close>, so the system has a solution.
\<close>

definition one_fluid_cell :: macgrid where
  "one_fluid_cell = \<lparr>dimensions = vec3 2 1 2, m_u_x = (\<lambda>_. 0), m_u_y = (\<lambda>_. 0),
     m_u_z = (\<lambda>_. 0), m_P = (\<lambda>_. 0), m_D = (\<lambda>_. 1),
     m_A = (\<lambda>c. if c = (0, 0, 0) then FLUID else AIR), m_L = (\<lambda>_. 0)\<rparr>"

text \<open>A 1 x 1 x 1 grid: a single fluid cell between the six walls of the domain.\<close>

definition one_cell :: macgrid where
  "one_cell = \<lparr>dimensions = vec3 1 1 1, m_u_x = (\<lambda>_. 0), m_u_y = (\<lambda>_. 0),
     m_u_z = (\<lambda>_. 0), m_P = (\<lambda>_. 0), m_D = (\<lambda>_. 0), m_A = (\<lambda>_. FLUID),
     m_L = (\<lambda>_. - 1)\<rparr>"

text \<open>A 1 x 1 x 2 grid of fluid cells.\<close>

definition column_grid :: macgrid where
  "column_grid = \<lparr>dimensions = vec3 1 1 2, m_u_x = (\<lambda>_. 0), m_u_y = (\<lambda>_. 0),
     m_u_z = (\<lambda>_. 0), m_P = (\<lambda>_. 0), m_D = (\<lambda>_. 1), m_A = (\<lambda>_. FLUID),
     m_L = (\<lambda>_. - 1)\<rparr>"

text \<open>A 2 x 1 x 1 grid of two fluid cells, with solid cells around it.\<close>

definition two_fluid_cells :: macgrid where
  "two_fluid_cells = \<lparr>dimensions = vec3 2 1 1, m_u_x = (\<lambda>_. 0), m_u_y = (\<lambda>_. 0),
     m_u_z = (\<lambda>_. 0), m_P = (\<lambda>_. 0), m_D = (\<lambda>_. 0),
     m_A = (\<lambda>c. if c = (0, 0, 0) \<or> c = (1, 0, 0) then FLUID else SOLID),
     m_L = (\<lambda>_. - 1)\<rparr>"

text \<open>
  A heap of seven float grids and one marker grid, with the grid \<open>one_fluid_cell\<close> laid
  out in it: the velocities at the addresses 0, 1, 2, the pressure at 3, the divergence
  at 4, the level set at 5.
\<close>

definition small_heap :: heap where
  "small_heap = \<lparr>floatgrids = (\<lambda>a. if a = 4 then (\<lambda>_. 1) else (\<lambda>_. 0)),
     intgrids = (\<lambda>a. (\<lambda>c. if c = (0, 0, 0) then FLUID else AIR)), brk = 7\<rparr>"

definition small_ptrs :: macgrid_ptrs where
  "small_ptrs = \<lparr>p_dimensions = vec3 2 1 2, p_u_x = 0, p_u_y = 1, p_u_z = 2, p_P = 3,
     p_D = 4, p_A = 0, p_L = 5\<rparr>"

section \<open>Evaluation lemmas\<close>

lemma loop_range_simps:
  "loop_range 0 = []" "loop_range 1 = [0]" "loop_range 2 = [0, 1]"
  "loop_range 4 = [0, 1, 2, 3]"
  by (simp_all add: loop_range_def upt_rec)

text \<open>A product within the range of \<open>int\<close> does not wrap.\<close>

lemma int32_id: "- (2 ^ 31) \<le> a \<Longrightarrow> a < 2 ^ 31 \<Longrightarrow> int32 a = a"
  by (simp add: int32_def)

lemma imul_nowrap: "- (2 ^ 31) \<le> a * b \<Longrightarrow> a * b < 2 ^ 31 \<Longrightarrow> imul a b = a * b"
  by (simp add: imul_def int32_id)

lemma imul_simps [simp]:
  "imul 1 1 = 1" "imul 2 1 = 2" "imul 1 2 = 2" "imul 2 2 = 4" "imul 4 1 = 4"
  by (simp_all add: imul_nowrap)

lemma set_loop_range: "gn \<in> set (loop_range n) \<longleftrightarrow> 0 \<le> gn \<and> gn < n"
  by (auto simp: loop_range_def image_iff intro: bexI [of _ "nat gn"])

lemma cint_numeral [simp]: "cint 0 = 0" "cint 1 = 1" "cint (numeral n) = numeral n"
  by (simp_all add: cint_def)

lemma cint_of_int [simp]: "cint (of_int n) = n"
  by (simp add: cint_def)

lemma cint_neg [simp]: "cint (- 1) = - 1" "cint (- numeral n) = - numeral n"
  using cint_of_int [of "- 1"] cint_of_int [of "- numeral n"] by simp_all

lemma cuint_numeral [simp]: "cuint 0 = 0" "cuint 1 = 1" "cuint (numeral n) = numeral n"
  by (simp_all add: cuint_def)

text \<open>On non-negative operands C's truncating \<open>/\<close> and \<open>%\<close> are \<open>div\<close> and \<open>mod\<close>.\<close>

lemma sdiv_smod_nonneg:
  "0 \<le> a \<Longrightarrow> 0 \<le> b \<Longrightarrow> a sdiv b = a div b"
  "0 \<le> a \<Longrightarrow> 0 \<le> b \<Longrightarrow> a smod b = a mod b" for a b :: int
  by (auto simp: signed_divide_int_def signed_modulo_int_def sgn_if)

lemma half_not_int: "(1 / 2 :: real) \<noteq> of_int n"
proof
  assume "(1 / 2 :: real) = of_int n"
  then have "(of_int (2 * n) :: real) = of_int 1" by simp
  then have "2 * n = 1" by (simp only: of_int_eq_iff)
  then show False by presburger
qed

section \<open>The solver: what it writes, and the missing iteration\<close>

lemma solve_eq:
  "solve fluid mgrid subcell = mgrid\<lparr>m_D := flipGrid (m_D mgrid) (dimensions mgrid)\<rparr>"
  by (simp add: solve_def solveConjugateGradient_def Let_def)

text \<open>A loop that writes one grid of the heap.\<close>

lemma fold_write_frame:
  fixes F :: "int \<Rightarrow> heap \<Rightarrow> real grid" and t :: addr
  defines "W \<equiv> (\<lambda>gn h. h\<lparr>floatgrids := (floatgrids h)(t := F gn h)\<rparr>)"
  shows "intgrids (fold W gns h) = intgrids h"
    and "brk (fold W gns h) = brk h"
    and "a \<noteq> t \<Longrightarrow> floatgrids (fold W gns h) a = floatgrids h a"
  by (induction gns arbitrary: h) (simp_all add: W_def)

lemma fold_write_target:
  "floatgrids (fold (\<lambda>gn h. h\<lparr>floatgrids := (floatgrids h)(t := B gn (floatgrids h t))\<rparr>) gns h) t
   = fold B gns (floatgrids h t)"
  by (induction gns arbitrary: h) simp_all

lemma flipGrid_heap_frame:
  "intgrids (flipGrid_heap g dims h) = intgrids h"
  "brk (flipGrid_heap g dims h) = brk h"
  "a \<noteq> g \<Longrightarrow> floatgrids (flipGrid_heap g dims h) a = floatgrids h a"
  unfolding flipGrid_heap_def Let_def by (rule fold_write_frame; assumption?)+

lemma flipGrid_heap_target:
  "floatgrids (flipGrid_heap g dims h) g = flipGrid (floatgrids h g) dims"
  unfolding flipGrid_heap_def flipGrid_def Let_def by (rule fold_write_target)

lemma buildPreconditioner_heap_frame:
  "intgrids (buildPreconditioner_heap fluid pc mgrid subcell h) = intgrids h"
  "brk (buildPreconditioner_heap fluid pc mgrid subcell h) = brk h"
  "a \<noteq> pc \<Longrightarrow> floatgrids (buildPreconditioner_heap fluid pc mgrid subcell h) a = floatgrids h a"
  unfolding buildPreconditioner_heap_def Let_def by (rule fold_write_frame; assumption?)+

lemma op_heap_frame:
  "intgrids (op_heap A X Y target alpha dims h) = intgrids h"
  "brk (op_heap A X Y target alpha dims h) = brk h"
  "a \<noteq> target \<Longrightarrow> floatgrids (op_heap A X Y target alpha dims h) a = floatgrids h a"
  unfolding op_heap_def Let_def by (rule fold_write_frame; assumption?)+

lemma computeAx_heap_frame:
  "intgrids (computeAx_heap A L X target dims subcell h) = intgrids h"
  "brk (computeAx_heap A L X target dims subcell h) = brk h"
  "a \<noteq> target \<Longrightarrow> floatgrids (computeAx_heap A L X target dims subcell h) a = floatgrids h a"
  unfolding computeAx_heap_def Let_def by (rule fold_write_frame; assumption?)+

lemma solveConjugateGradient_heap_frame:
  "intgrids (solveConjugateGradient_heap mgrid pc subcell h) = intgrids h"
  "a < brk h \<Longrightarrow> floatgrids (solveConjugateGradient_heap mgrid pc subcell h) a = floatgrids h a"
  by (simp_all add: solveConjugateGradient_heap_def new_floatgrid_def op_heap_frame
      computeAx_heap_frame)

lemma solve_heap_frame:
  "intgrids (solve_heap fluid mgrid subcell h) = intgrids h"
  "a < brk h \<Longrightarrow> a \<noteq> p_D mgrid \<Longrightarrow> floatgrids (solve_heap fluid mgrid subcell h) a = floatgrids h a"
  "p_D mgrid < brk h \<Longrightarrow>
   floatgrids (solve_heap fluid mgrid subcell h) (p_D mgrid)
   = flipGrid (floatgrids h (p_D mgrid)) (p_dimensions mgrid)"
  by (simp_all add: solve_heap_def Let_def new_floatgrid_def solveConjugateGradient_heap_frame
      buildPreconditioner_heap_frame flipGrid_heap_frame flipGrid_heap_target)

text \<open>
  On a heap where the grids of the \<open>macgrid\<close> are allocated, and the divergence grid is
  none of the others, \<open>solve\<close> on the heap is \<open>solve\<close> on the contents.
\<close>

lemma solve_heap_deref:
  assumes "p_u_x mgrid < brk h" "p_u_y mgrid < brk h" "p_u_z mgrid < brk h"
    "p_P mgrid < brk h" "p_D mgrid < brk h" "p_L mgrid < brk h"
    "p_D mgrid \<notin> {p_u_x mgrid, p_u_y mgrid, p_u_z mgrid, p_P mgrid, p_L mgrid}"
  shows "deref (solve_heap fluid mgrid subcell h) mgrid = solve fluid (deref h mgrid) subcell"
  using assms by (simp add: solve_heap_frame solve_eq deref_def)

text \<open>
  C9. \<open>solve\<close> changes the divergence grid only, by the negation pass: every float grid
  allocated before the call, but the divergence grid, and every marker grid has after
  the call the contents it had before, so the pressure, the three face velocities, the
  markers and the level set of the \<open>macgrid\<close> are unchanged. \<open>solveConjugateGradient\<close>
  changes no grid allocated before the call: it writes the grids it allocates.
\<close>

theorem solve_frame:
  "(\<forall>a. a < brk h \<longrightarrow> a \<noteq> p_D mgrid \<longrightarrow>
        floatgrids (solve_heap fluid mgrid subcell h) a = floatgrids h a)
   \<and> intgrids (solve_heap fluid mgrid subcell h) = intgrids h
   \<and> (p_D mgrid < brk h \<longrightarrow>
        floatgrids (solve_heap fluid mgrid subcell h) (p_D mgrid)
        = flipGrid (floatgrids h (p_D mgrid)) (p_dimensions mgrid))
   \<and> (\<forall>a. a < brk h \<longrightarrow>
        floatgrids (solveConjugateGradient_heap mgrid pc subcell h) a = floatgrids h a)
   \<and> intgrids (solveConjugateGradient_heap mgrid pc subcell h) = intgrids h
   \<and> (p_u_x mgrid < brk h \<and> p_u_y mgrid < brk h \<and> p_u_z mgrid < brk h \<and> p_P mgrid < brk h
        \<and> p_D mgrid < brk h \<and> p_L mgrid < brk h
        \<and> p_D mgrid \<notin> {p_u_x mgrid, p_u_y mgrid, p_u_z mgrid, p_P mgrid, p_L mgrid} \<longrightarrow>
      deref (solve_heap fluid mgrid subcell h) mgrid = solve fluid (deref h mgrid) subcell
      \<and> m_P (solve fluid (deref h mgrid) subcell) = m_P (deref h mgrid)
      \<and> m_u_x (solve fluid (deref h mgrid) subcell) = m_u_x (deref h mgrid)
      \<and> m_u_y (solve fluid (deref h mgrid) subcell) = m_u_y (deref h mgrid)
      \<and> m_u_z (solve fluid (deref h mgrid) subcell) = m_u_z (deref h mgrid)
      \<and> m_A (solve fluid (deref h mgrid) subcell) = m_A (deref h mgrid)
      \<and> m_L (solve fluid (deref h mgrid) subcell) = m_L (deref h mgrid))"
  by (simp add: solve_heap_frame solveConjugateGradient_heap_frame solve_eq deref_def)

theorem solve_frame_witness:
  "p_P small_ptrs < brk small_heap
   \<and> p_P small_ptrs \<noteq> p_D small_ptrs
   \<and> floatgrids (solve_heap 0 small_ptrs 1 small_heap) (p_P small_ptrs) = (\<lambda>_. 0)
   \<and> floatgrids (solveConjugateGradient_heap small_ptrs 6 1 small_heap) (p_P small_ptrs)
       = (\<lambda>_. 0)
   \<and> deref (solve_heap 0 small_ptrs 1 small_heap) small_ptrs
       = solve 0 (deref small_heap small_ptrs) 1"
  using solve_frame [where h = small_heap and mgrid = small_ptrs and fluid = 0
      and subcell = 1 and pc = 6]
  by (simp add: small_heap_def small_ptrs_def)

text \<open>
  C1. On the grid \<open>one_fluid_cell\<close>, the contents of \<open>small_ptrs\<close> in \<open>small_heap\<close>, the
  pressure after \<open>solve\<close> is still 0 at the fluid cell, the right-hand side there is
  \<open>-1\<close>, and the residual \<open>b - A p\<close> that \<open>solveConjugateGradient\<close> computes from the
  solved grid is \<open>-1\<close>: its absolute value is not below \<open>1e-4\<close>. The pressure \<open>-1/8\<close>
  would have solved the system.
\<close>

theorem solve_leaves_residual:
  "deref small_heap small_ptrs = one_fluid_cell
   \<and> deref (solve_heap fluid small_ptrs 0 small_heap) small_ptrs = solve fluid one_fluid_cell 0
   \<and> getCell (m_A one_fluid_cell) 0 0 0 = FLUID
   \<and> getCell (m_P (solve fluid one_fluid_cell 0)) 0 0 0 = 0
   \<and> getCell (m_D (solve fluid one_fluid_cell 0)) 0 0 0 = - 1
   \<and> getCell (cg_r (snd (solveConjugateGradient (solve fluid one_fluid_cell 0) pc 0))) 0 0 0
       = - 1
   \<and> \<not> \<bar>getCell (cg_r (snd (solveConjugateGradient (solve fluid one_fluid_cell 0) pc 0)))
           0 0 0\<bar> < 1 / 10 ^ 4
   \<and> getCell (computeAx (m_A one_fluid_cell) (m_L one_fluid_cell)
                (\<lambda>c. if c = (0, 0, 0) then - 1 / 8 else 0) (\<lambda>_. 0) (vec3 2 1 2) 0) 0 0 0
       = - 1"
proof -
  have d: "deref small_heap small_ptrs = one_fluid_cell"
    by (simp add: deref_def small_heap_def small_ptrs_def one_fluid_cell_def)
  have "deref (solve_heap fluid small_ptrs 0 small_heap) small_ptrs
        = solve fluid (deref small_heap small_ptrs) 0"
    by (rule solve_heap_deref) (simp_all add: small_heap_def small_ptrs_def)
  with d have l: "deref (solve_heap fluid small_ptrs 0 small_heap) small_ptrs
        = solve fluid one_fluid_cell 0"
    by simp
  show ?thesis
    unfolding d l
    by (simp add: solve_eq solveConjugateGradient_def one_fluid_cell_def computeAx_def
        computeAx_body_def xRef_def loop_range_simps op_def op_body_def flipGrid_def
        flipGrid_body_def Let_def gn_i_def gn_j_def gn_k_def getCell_def setCell_def
        sdiv_smod_nonneg)
qed

section \<open>The flat loop counter\<close>

text \<open>
  C2. On a 2 x 1 x 1 grid the two counter values of the loop of \<open>flipGrid\<close> are
  decomposed into the cells (0,0,0) and (0,1,0): the cell (1,0,0) of the domain is not
  visited and keeps its value 1, where its negation is \<open>-1\<close>.
\<close>

theorem flipGrid_misses_cell:
  "loop_range (imul (imul (cint 2) (cint 1)) (cint 1)) = [0, 1]
   \<and> (gn_i 2 1 1 0, gn_j 2 1 1 0, gn_k 2 1 1 0) = (0, 0, 0)
   \<and> (gn_i 2 1 1 1, gn_j 2 1 1 1, gn_k 2 1 1 1) = (0, 1, 0)
   \<and> getCell (flipGrid (\<lambda>_. 1) (vec3 2 1 1)) 1 0 0 = 1"
  by (simp add: flipGrid_def flipGrid_body_def loop_range_simps gn_i_def gn_j_def gn_k_def
      getCell_def setCell_def sdiv_smod_nonneg)

text \<open>
  The cells the loops reach: for \<open>0 \<le> i < z\<close>, \<open>0 \<le> j\<close>, \<open>j*z + i < x*y\<close> and
  \<open>0 \<le> k < z\<close>, the cell \<open>(i,j,k)\<close> is the cell of the counter value
  \<open>k*(x*y) + j*z + i\<close>, provided the number of cells is in the range of \<open>int\<close>.
  Where the x and z resolutions agree, these are the cells of the domain.
\<close>

lemma div_mod_block:
  "0 \<le> r \<Longrightarrow> r < b \<Longrightarrow> (c * b + r) div b = c \<and> (c * b + r) mod b = r" for b c r :: int
  by (auto simp: div_pos_pos_trivial)

lemma gn_decompose:
  assumes "0 \<le> i" "i < z" "0 \<le> j" "j * z + i < x * y" "0 \<le> k" "k < z"
    and "x * y * z < 2 ^ 31"
  defines "gn \<equiv> k * (x * y) + j * z + i"
  shows "gn \<in> set (loop_range (imul (imul x y) z))"
    and "gn_i x y z gn = i" and "gn_j x y z gn = j" and "gn_k x y z gn = k"
proof -
  define m where "m = j * z + i"
  define c where "c = x * y"
  have z: "0 < z" using assms(5,6) by simp
  have "0 \<le> j * z" using assms(3) z by simp
  then have m: "0 \<le> m" "m < c"
    using assms(1,4) by (simp_all add: m_def c_def)
  then have c0: "0 < c" by simp
  have "c * 1 \<le> c * z" using c0 z by (intro mult_left_mono) simp_all
  then have cz: "c \<le> c * z" by simp
  have big: "c * z < 2 ^ 31" using assms(7) by (simp add: c_def)
  have "- (2 ^ 31) \<le> c" using c0 by simp
  moreover have "c < 2 ^ 31" using cz big by (rule le_less_trans)
  ultimately have ixy: "imul x y = c"
    unfolding c_def by (rule imul_nowrap)
  have "0 < c * z" using c0 z by simp
  then have ixyz: "imul c z = c * z"
    using big by (simp add: imul_nowrap)
  have gn: "gn = k * c + m" by (simp add: gn_def m_def c_def)
  have "0 \<le> k * c" using assms(5) c0 by simp
  then have gn0: "0 \<le> gn" using m(1) by (simp add: gn)
  have "k * c + c \<le> z * c"
    using mult_right_mono [of "k + 1" z c] assms(6) c0 by (simp add: algebra_simps)
  then have "gn < c * z" using m by (simp add: gn mult.commute)
  with gn0 show "gn \<in> set (loop_range (imul (imul x y) z))"
    by (simp add: set_loop_range ixy ixyz)
  have md: "gn mod c = m" "gn div c = k"
    using div_mod_block [of m c k] m by (simp_all add: gn)
  have id: "m mod z = i" "m div z = j"
    using div_mod_block [of i z j] assms(1,2) by (simp_all add: m_def)
  show "gn_i x y z gn = i" "gn_j x y z gn = j" "gn_k x y z gn = k"
    using gn0 c0 m z md id
    by (simp_all add: gn_i_def gn_j_def gn_k_def ixy sdiv_smod_nonneg)
qed

lemma gn_decompose_square:
  fixes i j x y z :: int
  assumes "x = z" "0 \<le> i" "i < x" "0 \<le> j" "j < y"
  shows "i < z" and "j * z + i < x * y"
proof -
  show "i < z" using assms by simp
  have "j * z + z \<le> y * z"
    using assms mult_right_mono [of "j + 1" y z] by (simp add: algebra_simps)
  then show "j * z + i < x * y" using assms by (simp add: mult.commute)
qed

section \<open>The preconditioner\<close>

text \<open>
  C5. \<open>PRef\<close> returns 0 at an in-domain cell that stores the preconditioner value 1/2,
  whatever the marker of the cell and whatever integer the enumerator \<open>FLUID\<close> stands for.
\<close>

theorem PRef_drops_stored_value:
  "getCell (setCell (\<lambda>_. 0) 0 0 0 (1 / 2)) 0 0 0 = 1 / 2
   \<and> PRef fluid (setCell (\<lambda>_. 0) 0 0 0 (1 / 2)) 0 0 0 (vec3 1 1 1) = 0"
  using half_not_int [of fluid] by (simp add: PRef_def getCell_def setCell_def)

lemma buildPreconditioner_body_pos:
  assumes "0 < pc c"
  shows "0 < buildPreconditioner_body fluid mgrid subcell x y z gn pc c"
proof -
  have w: "0 < 1 / sqrt (if e < 1 / 4 * d then d else e)" if "0 < d" for e d :: real
    using that by simp
  show ?thesis
    using assms w by (simp add: buildPreconditioner_body_def Let_def setCell_def)
qed

lemma buildPreconditioner_body_sets:
  assumes "getCell (m_A mgrid) (gn_i x y z gn) (gn_j x y z gn) (gn_k x y z gn) = FLUID"
    and "0 < ADiag (m_A mgrid) (m_L mgrid) (gn_i x y z gn) (gn_j x y z gn) (gn_k x y z gn)
               (dimensions mgrid) subcell"
  shows "0 < buildPreconditioner_body fluid mgrid subcell x y z gn pc
               (gn_i x y z gn, gn_j x y z gn, gn_k x y z gn)"
proof -
  have w: "0 < 1 / sqrt (if e < 1 / 4 * d then d else e)" if "0 < d" for e d :: real
    using that by simp
  show ?thesis
    using assms w by (simp add: buildPreconditioner_body_def Let_def setCell_def)
qed

lemma fold_buildPreconditioner_pos:
  "0 < pc c \<Longrightarrow> 0 < fold (buildPreconditioner_body fluid mgrid subcell x y z) gns pc c"
  by (induction gns arbitrary: pc) (simp_all add: buildPreconditioner_body_pos)

lemma fold_buildPreconditioner_sets:
  assumes "gn \<in> set gns"
    and "getCell (m_A mgrid) (gn_i x y z gn) (gn_j x y z gn) (gn_k x y z gn) = FLUID"
    and "0 < ADiag (m_A mgrid) (m_L mgrid) (gn_i x y z gn) (gn_j x y z gn) (gn_k x y z gn)
               (dimensions mgrid) subcell"
  shows "0 < fold (buildPreconditioner_body fluid mgrid subcell x y z) gns pc
               (gn_i x y z gn, gn_j x y z gn, gn_k x y z gn)"
  using assms(1)
proof (induction gns arbitrary: pc)
  case Nil
  then show ?case by simp
next
  case (Cons g gns)
  show ?case
  proof (cases "g = gn")
    case True
    then show ?thesis
      using buildPreconditioner_body_sets [OF assms(2,3)]
      by (simp add: fold_buildPreconditioner_pos)
  next
    case False
    with Cons show ?thesis by simp
  qed
qed

text \<open>The loop writes a cell only where the marker is fluid and the diagonal positive.\<close>

lemma buildPreconditioner_body_keeps:
  assumes "\<not> (getCell (m_A mgrid) i j k = FLUID
              \<and> 0 < ADiag (m_A mgrid) (m_L mgrid) i j k (dimensions mgrid) subcell)"
  shows "buildPreconditioner_body fluid mgrid subcell x y z gn pc (i, j, k) = pc (i, j, k)"
proof (cases "(gn_i x y z gn, gn_j x y z gn, gn_k x y z gn) = (i, j, k)")
  case True
  then show ?thesis
    using assms by (auto simp: buildPreconditioner_body_def Let_def setCell_def)
next
  case False
  then show ?thesis
    by (auto simp: buildPreconditioner_body_def Let_def setCell_def)
qed

lemma fold_buildPreconditioner_keeps:
  assumes "\<not> (getCell (m_A mgrid) i j k = FLUID
              \<and> 0 < ADiag (m_A mgrid) (m_L mgrid) i j k (dimensions mgrid) subcell)"
  shows "fold (buildPreconditioner_body fluid mgrid subcell x y z) gns pc (i, j, k)
         = pc (i, j, k)"
  by (induction gns arbitrary: pc) (simp_all add: buildPreconditioner_body_keeps [OF assms])

text \<open>
  C4, as stated: on the grid \<open>one_cell\<close> the only cell is a fluid cell whose six
  neighbours are outside the domain; its diagonal is 0, the guard \<open>diag > 0\<close> skips it,
  and its preconditioner value stays 0. On the grid \<open>two_fluid_cells\<close>, of 2 x 1 x 1
  cells, the fluid cell (1,0,0) has the diagonal 1 and is not among the cells of the two
  counter values: its preconditioner value stays 0 as well.
\<close>

theorem buildPreconditioner_zero_diagonal:
  "getCell (m_A one_cell) 0 0 0 = FLUID
   \<and> ADiag (m_A one_cell) (m_L one_cell) 0 0 0 (dimensions one_cell) 0 = 0
   \<and> \<not> 0 < getCell (buildPreconditioner 0 (\<lambda>_. 0) one_cell 0) 0 0 0
   \<and> getCell (m_A two_fluid_cells) 1 0 0 = FLUID
   \<and> ADiag (m_A two_fluid_cells) (m_L two_fluid_cells) 1 0 0 (dimensions two_fluid_cells) 0 = 1
   \<and> \<not> 0 < getCell (buildPreconditioner 0 (\<lambda>_. 0) two_fluid_cells 0) 1 0 0"
proof -
  have one: "getCell (m_A one_cell) 0 0 0 = FLUID
      \<and> ADiag (m_A one_cell) (m_L one_cell) 0 0 0 (dimensions one_cell) 0 = 0
      \<and> \<not> 0 < getCell (buildPreconditioner 0 (\<lambda>_. 0) one_cell 0) 0 0 0"
    by (simp add: one_cell_def buildPreconditioner_def buildPreconditioner_body_def ADiag_def
        ADiag_body_def loop_range_simps Let_def gn_i_def gn_j_def gn_k_def getCell_def
        setCell_def)
  have two: "getCell (m_A two_fluid_cells) 1 0 0 = FLUID
      \<and> ADiag (m_A two_fluid_cells) (m_L two_fluid_cells) 1 0 0 (dimensions two_fluid_cells) 0
          = 1"
    by (simp add: two_fluid_cells_def ADiag_def ADiag_body_def Let_def getCell_def)
  have "getCell (buildPreconditioner 0 (\<lambda>_. 0) two_fluid_cells 0) 1 0 0 = 0"
    by (simp add: two_fluid_cells_def buildPreconditioner_def buildPreconditioner_body_def
        loop_range_simps Let_def gn_i_def gn_j_def gn_k_def getCell_def setCell_def
        sdiv_smod_nonneg)
  with one two show ?thesis by simp
qed

text \<open>
  C4, amended: after \<open>buildPreconditioner\<close> has run on a grid of zeros, the stored value
  is strictly positive at every cell \<open>(i,j,k)\<close> of the domain that is marked fluid, whose
  diagonal \<open>ADiag\<close> is positive, and that the loop reaches: \<open>i < z\<close> and
  \<open>j*z + i < x*y\<close>, which holds for every cell of the domain where the x and z
  resolutions agree, with the number \<open>x*y*z\<close> of cells in the range of \<open>int\<close>. At
  every cell whose diagonal is not positive the stored value is still 0. The hypothesis
  on the level set keeps the ghost-fluid quotient of \<open>ADiag\<close> away from a zero divisor,
  where the float is an infinity or a NaN and the real number is not its model.
\<close>

theorem buildPreconditioner_positive:
  fixes mgrid :: macgrid and i j k :: int
  defines "x \<equiv> cint (vec_x (dimensions mgrid))"
    and "y \<equiv> cint (vec_y (dimensions mgrid))"
    and "z \<equiv> cint (vec_z (dimensions mgrid))"
  shows "(0 \<le> i \<and> i < x \<and> 0 \<le> j \<and> j < y \<and> 0 \<le> k \<and> k < z
          \<and> i < z \<and> j * z + i < x * y \<and> x * y * z < 2 ^ 31
          \<and> getCell (m_A mgrid) i j k = FLUID
          \<and> 0 < ADiag (m_A mgrid) (m_L mgrid) i j k (dimensions mgrid) subcell
          \<and> (subcell = 0 \<or> getCell (m_L mgrid) i j k \<noteq> 0)
          \<longrightarrow> 0 < getCell (buildPreconditioner fluid (\<lambda>_. 0) mgrid subcell) i j k)
    \<and> (0 \<le> i \<and> i < x \<and> 0 \<le> j \<and> j < y \<and> 0 \<le> k \<and> k < z
          \<and> x = z \<and> x * y * z < 2 ^ 31
          \<and> getCell (m_A mgrid) i j k = FLUID
          \<and> 0 < ADiag (m_A mgrid) (m_L mgrid) i j k (dimensions mgrid) subcell
          \<and> (subcell = 0 \<or> getCell (m_L mgrid) i j k \<noteq> 0)
          \<longrightarrow> 0 < getCell (buildPreconditioner fluid (\<lambda>_. 0) mgrid subcell) i j k)
    \<and> (\<not> 0 < ADiag (m_A mgrid) (m_L mgrid) i j k (dimensions mgrid) subcell
          \<longrightarrow> getCell (buildPreconditioner fluid (\<lambda>_. 0) mgrid subcell) i j k = 0)"
proof -
  have reached: "0 < getCell (buildPreconditioner fluid (\<lambda>_. 0) mgrid subcell) i j k"
    if "0 \<le> i" "i < z" "0 \<le> j" "j * z + i < x * y" "0 \<le> k" "k < z" "x * y * z < 2 ^ 31"
      and "getCell (m_A mgrid) i j k = FLUID"
      and "0 < ADiag (m_A mgrid) (m_L mgrid) i j k (dimensions mgrid) subcell"
  proof -
    define gn where "gn = k * (x * y) + j * z + i"
    have d: "gn \<in> set (loop_range (imul (imul x y) z))"
      "gn_i x y z gn = i" "gn_j x y z gn = j" "gn_k x y z gn = k"
      using gn_decompose [OF that(1-7)] by (simp_all add: gn_def)
    show ?thesis
      using fold_buildPreconditioner_sets
        [of gn "loop_range (imul (imul x y) z)" mgrid x y z subcell fluid "\<lambda>_. 0"] d that(8,9)
      by (simp add: buildPreconditioner_def Let_def getCell_def x_def y_def z_def)
  qed
  have square: "i < z \<and> j * z + i < x * y" if "x = z" "0 \<le> i" "i < x" "0 \<le> j" "j < y"
    using gn_decompose_square [OF that] by simp
  have kept: "getCell (buildPreconditioner fluid (\<lambda>_. 0) mgrid subcell) i j k = 0"
    if "\<not> 0 < ADiag (m_A mgrid) (m_L mgrid) i j k (dimensions mgrid) subcell"
    using that
    by (simp add: buildPreconditioner_def Let_def getCell_def fold_buildPreconditioner_keeps)
  show ?thesis
    using reached square kept by blast
qed

theorem buildPreconditioner_positive_witness:
  "cint (vec_x (dimensions column_grid)) = 1 \<and> cint (vec_y (dimensions column_grid)) = 1
   \<and> cint (vec_z (dimensions column_grid)) = 2
   \<and> getCell (m_A column_grid) 0 0 1 = FLUID
   \<and> 0 < ADiag (m_A column_grid) (m_L column_grid) 0 0 1 (dimensions column_grid) 1
   \<and> getCell (m_L column_grid) 0 0 1 \<noteq> 0
   \<and> 0 < getCell (buildPreconditioner 0 (\<lambda>_. 0) column_grid 1) 0 0 1
   \<and> \<not> 0 < ADiag (m_A one_cell) (m_L one_cell) 0 0 0 (dimensions one_cell) 1
   \<and> getCell (buildPreconditioner 0 (\<lambda>_. 0) one_cell 1) 0 0 0 = 0"
proof -
  have h: "0 < ADiag (m_A column_grid) (m_L column_grid) 0 0 1 (dimensions column_grid) 1"
    by (simp add: column_grid_def ADiag_def ADiag_body_def Let_def getCell_def)
  have l: "getCell (m_L column_grid) 0 0 1 \<noteq> 0" "getCell (m_A column_grid) 0 0 1 = FLUID"
    by (simp_all add: column_grid_def getCell_def)
  have d: "cint (vec_x (dimensions column_grid)) = 1" "cint (vec_y (dimensions column_grid)) = 1"
    "cint (vec_z (dimensions column_grid)) = 2"
    by (simp_all add: column_grid_def)
  have n: "\<not> 0 < ADiag (m_A one_cell) (m_L one_cell) 0 0 0 (dimensions one_cell) 1"
    by (simp add: one_cell_def ADiag_def ADiag_body_def Let_def getCell_def)
  have "0 < getCell (buildPreconditioner 0 (\<lambda>_. 0) column_grid 1) 0 0 1"
    using buildPreconditioner_positive [of 0 column_grid 0 1 1 0] h l
    by (simp add: d)
  moreover have "getCell (buildPreconditioner 0 (\<lambda>_. 0) one_cell 1) 0 0 0 = 0"
    using buildPreconditioner_positive [of 0 one_cell 0 0 1 0] n by simp
  ultimately show ?thesis using h l d n by simp
qed

section \<open>Vectors: lemmas\<close>


lemma vec3_eq_iff: "a = b \<longleftrightarrow> vec_x a = vec_x b \<and> vec_y a = vec_y b \<and> vec_z a = vec_z b"
  by (cases a; cases b) simp

lemma vec3_sel_simps [simp]:
  "vec_x (a + b) = vec_x a + vec_x b" "vec_y (a + b) = vec_y a + vec_y b"
  "vec_z (a + b) = vec_z a + vec_z b"
  "vec_x (a - b) = vec_x a - vec_x b" "vec_y (a - b) = vec_y a - vec_y b"
  "vec_z (a - b) = vec_z a - vec_z b"
  "vec_x (- a) = - vec_x a" "vec_y (- a) = - vec_y a" "vec_z (- a) = - vec_z a"
  "vec_x (vscale a r) = vec_x a * r" "vec_y (vscale a r) = vec_y a * r"
  "vec_z (vscale a r) = vec_z a * r"
  "vec_x (scalev r a) = r * vec_x a" "vec_y (scalev r a) = r * vec_y a"
  "vec_z (scalev r a) = r * vec_z a"
  "vec_x (vdiv a r) = vec_x a / r" "vec_y (vdiv a r) = vec_y a / r"
  "vec_z (vdiv a r) = vec_z a / r"
  by (simp_all add: plus_vec3_def minus_vec3_def uminus_vec3_def vscale_def scalev_def vdiv_def)

lemma dot_self_zero: "dot v v = 0 \<longleftrightarrow> v = vec3 0 0 0"
proof -
  have "vec_x v * vec_x v + vec_y v * vec_y v + vec_z v * vec_z v = 0
        \<longleftrightarrow> vec_x v = 0 \<and> vec_y v = 0 \<and> vec_z v = 0"
    using sum_squares_eq_zero_iff [of "vec_x v" "vec_y v"]
      sum_squares_eq_zero_iff [of "vec_x v * vec_x v + vec_y v * vec_y v" 0]
    by (smt (verit) mult_eq_0_iff zero_le_square add_nonneg_eq_0_iff add_nonneg_nonneg)
  then show ?thesis by (simp add: dot_def vec3_eq_iff)
qed

lemma dot_self_nonneg: "0 \<le> dot v v"
  by (simp add: dot_def)

lemma normalize_nan_same: "normalize_nan (a - a) = None"
  by (simp add: normalize_nan_def dot_def)

lemma normalize_nan_Some: "a \<noteq> b \<Longrightarrow> normalize_nan (a - b) = Some (normalize3 (a - b))"
  using dot_self_zero [of "a - b"] by (auto simp: normalize_nan_def vec3_eq_iff)

lemma dot_vscale: "dot (vscale v a) (vscale v a) = dot v v * (a * a)"
  by (simp add: dot_def algebra_simps)

lemma length3_vscale: "length3 (vscale v a) = length3 v * \<bar>a\<bar>"
  by (simp add: length3_def dot_vscale real_sqrt_mult)

lemma dot_normalize3: "v \<noteq> vec3 0 0 0 \<Longrightarrow> dot (normalize3 v) (normalize3 v) = 1"
proof -
  assume "v \<noteq> vec3 0 0 0"
  then have "0 < dot v v" using dot_self_zero [of v] dot_self_nonneg [of v] by simp
  then show ?thesis by (simp add: normalize3_def dot_vscale)
qed

lemma normalize3_unit: "dot d d = 1 \<Longrightarrow> normalize3 d = d"
  by (simp add: normalize3_def vec3_eq_iff)

lemma dot_reflect:
  assumes "dot d d = 1" "dot n n = 1"
  shows "dot (scalev (2 * dot d n) n - d) (scalev (2 * dot d n) n - d) = 1"
proof -
  define c where "c = dot d n"
  have "dot (scalev (2 * c) n - d) (scalev (2 * c) n - d)
        = 4 * c * c * dot n n - 4 * c * dot d n + dot d d"
    by (simp add: dot_def algebra_simps)
  then show ?thesis using assms by (simp add: c_def)
qed

lemma length3_one: "length3 v = 1 \<longleftrightarrow> dot v v = 1"
  by (simp add: length3_def)

lemma ApplyExternalForces_body_eq:
  "ApplyExternalForces_body fs st pa = pa\<lparr>m_u := fold (\<lambda>f u. u + vscale f st) fs (m_u pa)\<rparr>"
  unfolding ApplyExternalForces_body_def by (induction fs arbitrary: pa) simp_all

lemma fold_forces_net:
  "fold (\<lambda>f u. u + vscale f st) fs u = u + vscale (fold (\<lambda>f a. a + f) fs (vec3 0 0 0)) st"
proof -
  have step: "u + vscale a st + vscale f st = u + vscale (a + f) st" for a f
    by (simp add: vec3_eq_iff algebra_simps)
  have "fold (\<lambda>f u. u + vscale f st) fs (u + vscale a st)
        = u + vscale (fold (\<lambda>f a. a + f) fs a) st" for a
    by (induction fs arbitrary: a) (simp_all add: step)
  moreover have "u + vscale (vec3 0 0 0) st = u"
    by (simp add: vec3_eq_iff)
  ultimately show ?thesis by (metis (no_types))
qed

text \<open>
  C10. \<open>ApplyExternalForces\<close> adds \<open>f * stepsize\<close>, force after force, to the velocity
  of every particle of the array, whatever its type, and changes nothing else of it. In
  real arithmetic the velocity of a particle, solid markers included, changes by the sum
  of the forces times the step size, so it changes whenever that product is not zero.
\<close>

theorem ApplyExternalForces_every_particle:
  assumes "i < length (m_particles sim)"
  shows "length (m_particles (ApplyExternalForces sim)) = length (m_particles sim)
    \<and> m_particles (ApplyExternalForces sim) ! i
        = (m_particles sim ! i)\<lparr>m_u := fold (\<lambda>f u. u + vscale f (m_stepsize sim))
                                       (GetExternalForces (m_scene sim))
                                       (m_u (m_particles sim ! i))\<rparr>
    \<and> m_u (m_particles (ApplyExternalForces sim) ! i)
        = m_u (m_particles sim ! i)
          + vscale (fold (\<lambda>f a. a + f) (GetExternalForces (m_scene sim)) (vec3 0 0 0))
              (m_stepsize sim)
    \<and> (vscale (fold (\<lambda>f a. a + f) (GetExternalForces (m_scene sim)) (vec3 0 0 0))
          (m_stepsize sim) \<noteq> vec3 0 0 0 \<longrightarrow>
        m_u (m_particles (ApplyExternalForces sim) ! i) \<noteq> m_u (m_particles sim ! i))"
proof -
  have ch: "w \<noteq> vec3 0 0 0 \<longrightarrow> u + w \<noteq> u" for u w :: vec3
    by (auto simp: vec3_eq_iff)
  show ?thesis
    using assms ch
    by (simp add: ApplyExternalForces_def ApplyExternalForces_body_eq Let_def fold_forces_net)
qed

lemma raycast_loop_skip:
  "p < length ps \<Longrightarrow> m_p (ps ! p) = m_pt (ps ! p) \<Longrightarrow>
   AdjustParticlesStuckInSolids_loop scene maxd frame stuck ps ! p = ps ! p"
  unfolding AdjustParticlesStuckInSolids_loop_def
proof (induction stuck arbitrary: ps)
  case Nil
  then show ?case by simp
next
  case (Cons q stuck)
  let ?ps = "ps[q := AdjustParticlesStuckInSolids_raycast scene maxd frame (ps ! q)]"
  have same: "?ps ! p = ps ! p"
  proof (cases "q = p")
    case True
    then show ?thesis
      using Cons.prems by (simp add: AdjustParticlesStuckInSolids_raycast_def normalize_nan_same)
  next
    case False
    then show ?thesis by simp
  qed
  have "fold (\<lambda>p ps. ps[p := AdjustParticlesStuckInSolids_raycast scene maxd frame (ps ! p)]) stuck ?ps ! p
        = ?ps ! p"
    using Cons.prems same by (intro Cons.IH) simp_all
  with same show ?case by simp
qed

text \<open>
  C8. A fluid particle whose position equals its stored previous position has a NaN ray
  direction: \<open>CheckParticleSolidConstraints\<close> leaves it as it is, position and velocity
  included, and so does the raycast-and-place loop of \<open>AdjustParticlesStuckInSolids\<close>
  for a particle of the array.
\<close>

theorem degenerate_ray_is_skipped:
  "(i < length (m_particles sim) \<longrightarrow> m_type (m_particles sim ! i) = FLUID \<longrightarrow>
      m_p (m_particles sim ! i) = m_pt (m_particles sim ! i) \<longrightarrow>
      m_particles (CheckParticleSolidConstraints sim) ! i = m_particles sim ! i)
   \<and> (p < length ps \<longrightarrow> m_p (ps ! p) = m_pt (ps ! p) \<longrightarrow>
      AdjustParticlesStuckInSolids_loop scene maxd frame stuck ps ! p = ps ! p)"
  by (simp add: CheckParticleSolidConstraints_def CheckParticleSolidConstraints_body_def
      Let_def normalize_nan_same raycast_loop_skip)

text \<open>
  C7. In \<open>CheckParticleSolidConstraints\<close>, a fluid particle whose ray from \<open>pt * maxd\<close>
  towards \<open>p\<close> hits a solid nearer than the travelled distance \<open>|p - pt| * maxd\<close>, and
  whose new position is not inside a solid, is placed at
  \<open>(origin + direction * 0.90 * hitDistance) / maxd\<close>. Its new velocity is the
  normalised reflection \<open>2 (d . n) n - d\<close> of the ray direction \<open>d\<close> about the hit normal
  \<open>n\<close>, scaled by the length of the stored previous velocity \<open>ut\<close>, and has that length,
  wherever the reflection is not the zero vector; for a hit normal of unit length the
  reflection is a unit vector itself.
\<close>

theorem CheckParticleSolidConstraints_reflects:
  fixes sim :: FlipSim and i :: nat
  defines "pa \<equiv> m_particles sim ! i"
    and "maxd \<equiv> maxd_of (m_dimensions sim)"
    and "frame \<equiv> of_int (m_frame_count sim)"
  defines "dir \<equiv> normalize3 (m_p pa - m_pt pa)"
  defines "hit \<equiv> IntersectSolidGeoms (m_scene sim)
                    \<lparr>m_origin = vscale (m_pt pa) maxd, m_direction = dir, m_frame = frame\<rparr>"
  defines "hitDistance \<equiv> length3 (vscale (m_pt pa) maxd - m_point hit)"
  defines "newp \<equiv> vdiv (vscale (m_pt pa) maxd + vscale (vscale dir (9 / 10)) hitDistance) maxd"
  defines "reflected \<equiv> scalev (2 * dot dir (m_normal hit)) (m_normal hit) - dir"
  assumes inside: "i < length (m_particles sim)" and fluid: "m_type pa = FLUID"
    and hits: "m_hit hit" and nearer: "hitDistance < length3 (m_p pa - m_pt pa) * maxd"
    and outside: "\<not> CheckPointInsideSolidGeom (m_scene sim) (vscale newp maxd) frame"
  shows "m_p (m_particles (CheckParticleSolidConstraints sim) ! i) = newp
    \<and> (reflected \<noteq> vec3 0 0 0 \<longrightarrow>
          m_u (m_particles (CheckParticleSolidConstraints sim) ! i)
            = vscale (normalize3 reflected) (length3 (m_ut pa))
          \<and> length3 (m_u (m_particles (CheckParticleSolidConstraints sim) ! i))
            = length3 (m_ut pa))
    \<and> (length3 (m_normal hit) = 1 \<longrightarrow>
          m_u (m_particles (CheckParticleSolidConstraints sim) ! i)
            = vscale reflected (length3 (m_ut pa))
          \<and> length3 (m_u (m_particles (CheckParticleSolidConstraints sim) ! i))
            = length3 (m_ut pa))"
proof -
  have moved: "m_p pa \<noteq> m_pt pa"
  proof
    assume "m_p pa = m_pt pa"
    then have "length3 (m_p pa - m_pt pa) = 0"
      by (simp add: length3_def dot_def)
    with nearer have "hitDistance < 0" by simp
    moreover have "0 \<le> hitDistance"
      by (simp add: hitDistance_def length3_def dot_self_nonneg)
    ultimately show False by simp
  qed
  have nz: "m_p pa - m_pt pa \<noteq> vec3 0 0 0"
    using moved by (auto simp: vec3_eq_iff)
  have d1: "dot dir dir = 1"
    unfolding dir_def using nz by (rule dot_normalize3)
  have nn: "normalize_nan (m_p pa - m_pt pa) = Some dir"
    using moved by (simp add: normalize_nan_Some dir_def)
  have body: "CheckParticleSolidConstraints_body (m_scene sim) maxd frame (m_stepsize sim) pa
      = pa\<lparr>m_p := newp, m_u := vscale (normalize3 reflected) (length3 (m_ut pa))\<rparr>"
    using fluid hits nearer outside nn
    by (simp add: CheckParticleSolidConstraints_body_def Let_def normalize3_unit [OF d1]
        hit_def [symmetric] hitDistance_def [symmetric] newp_def [symmetric]
        reflected_def [symmetric])
  have "m_particles (CheckParticleSolidConstraints sim) ! i
      = CheckParticleSolidConstraints_body (m_scene sim) maxd frame (m_stepsize sim) pa"
    using inside
    by (simp add: CheckParticleSolidConstraints_def Let_def pa_def maxd_def frame_def)
  with body have res:
    "m_p (m_particles (CheckParticleSolidConstraints sim) ! i) = newp"
    "m_u (m_particles (CheckParticleSolidConstraints sim) ! i)
       = vscale (normalize3 reflected) (length3 (m_ut pa))"
    by simp_all
  have len: "length3 (vscale (normalize3 reflected) (length3 (m_ut pa))) = length3 (m_ut pa)"
    if "reflected \<noteq> vec3 0 0 0"
    using dot_normalize3 [OF that]
    by (simp add: length3_vscale) (simp add: length3_def dot_self_nonneg)
  have un: "reflected \<noteq> vec3 0 0 0 \<and> normalize3 reflected = reflected"
    if "length3 (m_normal hit) = 1"
  proof -
    have "dot (m_normal hit) (m_normal hit) = 1"
      using that by (simp add: length3_one)
    with d1 have r1: "dot reflected reflected = 1"
      unfolding reflected_def by (rule dot_reflect)
    then have "reflected \<noteq> vec3 0 0 0"
      by (auto simp: dot_def)
    with r1 show ?thesis by (simp add: normalize3_unit)
  qed
  show ?thesis
    using res len un by auto
qed

section \<open>ExtrapolateVelocity: a second run changes nothing\<close>

lemma face_cases:
  obtains i j k n where "f = ((i, j, k), n)"
  by (cases f, cases "fst f") auto

lemma if_chain:
  "(if a then m else if b then m else if c then m else if d then (if w then X else m) else m)
   = (if (if a then False else if b then False else if c then False else d) \<and> w then X else m)"
  by simp

lemma face_alt:
  "ExtrapolateVelocity_face x y z mark wallmark f m =
     (if face_writes x y z mark wallmark f \<and> fst (face_value x y z mark f m) \<noteq> 0
      then set_ugrid (snd f) (face_cell f)
             (snd (face_value x y z mark f m) / real (fst (face_value x y z mark f m))) m
      else m)"
proof (cases f rule: face_cases)
  case (1 i j k n)
  show ?thesis
    unfolding 1 ExtrapolateVelocity_face_def face_writes_def face_value_def set_ugrid_def
      face_cell_def prod.case snd_conv fst_conv GetCell_def SetCell_def Let_def if_chain
    by (rule refl)
qed

lemma face_writes_unmarked:
  "face_writes x y z mark wallmark f \<Longrightarrow> (mark ! snd f) (face_cell f) = 0"
  by (cases f rule: face_cases) (simp add: face_writes_def face_cell_def split: if_splits)

lemma sum_cong:
  assumes "\<And>c. n < 3 \<Longrightarrow> (mark ! n) c \<noteq> 0 \<Longrightarrow> ugrid n m c = ugrid n m' c"
  shows "ExtrapolateVelocity_sum mark m x y z n q ws = ExtrapolateVelocity_sum mark m' x y z n q ws"
  using assms [of "(cint (vec_x q), cint (vec_y q), cint (vec_z q))"]
  by (cases ws) (auto simp: ExtrapolateVelocity_sum_def GetCell_def ugrid_def Let_def)

lemma face_value_cong:
  assumes "\<And>c. snd f < 3 \<Longrightarrow> (mark ! snd f) c \<noteq> 0 \<Longrightarrow> ugrid (snd f) m c = ugrid (snd f) m' c"
  shows "face_value x y z mark f m = face_value x y z mark f m'"
proof -
  obtain i j k n where f: "f = ((i, j, k), n)" by (rule face_cases)
  have "ExtrapolateVelocity_sum mark m x y z n = ExtrapolateVelocity_sum mark m' x y z n"
    using sum_cong [of n mark m m'] assms by (auto simp: f fun_eq_iff)
  then show ?thesis by (simp add: face_value_def f)
qed

lemma ugrid_set_ugrid:
  "ugrid n' (set_ugrid n c v m) c' =
     (if n' = n \<and> c' = c \<and> n < 3 then v else ugrid n' m c')"
  if "n' < 3"
  using that by (auto simp: ugrid_def set_ugrid_def)

lemma set_ugrid_same: "ugrid n m c = v \<Longrightarrow> set_ugrid n c v m = m"
  by (auto simp: ugrid_def set_ugrid_def)

lemma set_ugrid_twice: "set_ugrid n c v (set_ugrid n c v m) = set_ugrid n c v m"
  by (simp add: set_ugrid_def)

lemma set_ugrid_beyond: "\<not> n < 3 \<Longrightarrow> set_ugrid n c v m = m"
  by (simp add: set_ugrid_def)

lemma m_A_set_ugrid: "m_A (set_ugrid n c v m) = m_A m"
  by (simp add: set_ugrid_def)

lemma face_value_set_ugrid:
  assumes "(mark ! n) c = 0"
  shows "face_value x y z mark f (set_ugrid n c v m) = face_value x y z mark f m"
  by (rule face_value_cong) (use assms in \<open>auto simp: ugrid_set_ugrid\<close>)

lemma face_twice:
  "ExtrapolateVelocity_face x y z mark wallmark f (ExtrapolateVelocity_face x y z mark wallmark f m)
   = ExtrapolateVelocity_face x y z mark wallmark f m"
proof (cases "face_writes x y z mark wallmark f \<and> fst (face_value x y z mark f m) \<noteq> 0")
  case False
  then have "ExtrapolateVelocity_face x y z mark wallmark f m = m"
    by (subst face_alt) auto
  then show ?thesis by (simp only:)
next
  case True
  then have "(mark ! snd f) (face_cell f) = 0"
    using face_writes_unmarked by blast
  then have "face_value x y z mark f (set_ugrid (snd f) (face_cell f) v m)
             = face_value x y z mark f m" for v
    by (rule face_value_set_ugrid)
  then have "ExtrapolateVelocity_face x y z mark wallmark f (set_ugrid (snd f) (face_cell f) v m)
             = set_ugrid (snd f) (face_cell f)
                 (snd (face_value x y z mark f m) / real (fst (face_value x y z mark f m)))
                 (set_ugrid (snd f) (face_cell f) v m)" for v
    using True by (subst face_alt) simp
  moreover have "ExtrapolateVelocity_face x y z mark wallmark f m
      = set_ugrid (snd f) (face_cell f)
          (snd (face_value x y z mark f m) / real (fst (face_value x y z mark f m))) m"
    using True by (subst face_alt) simp
  ultimately show ?thesis by (simp add: set_ugrid_twice)
qed

lemma face_stable:
  assumes "ExtrapolateVelocity_face x y z mark wallmark f m = m"
  shows "ExtrapolateVelocity_face x y z mark wallmark f (ExtrapolateVelocity_face x y z mark wallmark g m)
         = ExtrapolateVelocity_face x y z mark wallmark g m"
proof (cases "face_writes x y z mark wallmark g \<and> fst (face_value x y z mark g m) \<noteq> 0 \<and> snd g < 3")
  case False
  then have "ExtrapolateVelocity_face x y z mark wallmark g m = m"
    by (subst face_alt) (auto simp: set_ugrid_beyond)
  with assms show ?thesis by (simp only:)
next
  case g: True
  define vg where "vg = snd (face_value x y z mark g m) / real (fst (face_value x y z mark g m))"
  define m' where "m' = set_ugrid (snd g) (face_cell g) vg m"
  have gm: "ExtrapolateVelocity_face x y z mark wallmark g m = m'"
    using g by (subst face_alt) (simp add: m'_def vg_def)
  have unm: "(mark ! snd g) (face_cell g) = 0"
    using g face_writes_unmarked by blast
  have fv: "face_value x y z mark f m' = face_value x y z mark f m"
    unfolding m'_def using unm by (rule face_value_set_ugrid)
  show ?thesis
  proof (cases "face_writes x y z mark wallmark f \<and> fst (face_value x y z mark f m) \<noteq> 0 \<and> snd f < 3")
    case False
    then have "ExtrapolateVelocity_face x y z mark wallmark f m' = m'"
      by (subst face_alt) (auto simp: fv set_ugrid_beyond)
    then show ?thesis by (simp only: gm)
  next
    case f: True
    define vf where "vf = snd (face_value x y z mark f m) / real (fst (face_value x y z mark f m))"
    have "ExtrapolateVelocity_face x y z mark wallmark f m = set_ugrid (snd f) (face_cell f) vf m"
      using f by (subst face_alt) (simp add: vf_def)
    with assms have "set_ugrid (snd f) (face_cell f) vf m = m"
      by simp
    then have "ugrid (snd f) (set_ugrid (snd f) (face_cell f) vf m) (face_cell f) = ugrid (snd f) m (face_cell f)"
      by simp
    then have cur: "ugrid (snd f) m (face_cell f) = vf"
      using f by (simp add: ugrid_set_ugrid)
    have "ugrid (snd f) m' (face_cell f) = vf"
    proof (cases "snd f = snd g \<and> face_cell f = face_cell g")
      case True
      then have "f = g"
        by (cases f rule: face_cases, cases g rule: face_cases) (simp add: face_cell_def)
      then show ?thesis using f by (simp add: m'_def ugrid_set_ugrid vg_def vf_def)
    next
      case False
      then show ?thesis using f cur by (auto simp: m'_def ugrid_set_ugrid)
    qed
    then have "set_ugrid (snd f) (face_cell f) vf m' = m'" by (rule set_ugrid_same)
    moreover have "ExtrapolateVelocity_face x y z mark wallmark f m'
        = set_ugrid (snd f) (face_cell f) vf m'"
      using f by (subst face_alt) (simp add: fv vf_def)
    ultimately show ?thesis by (simp only: gm)
  qed
qed

lemma fold_fixed:
  "(\<And>f. f \<in> set fs \<Longrightarrow> step f m = m) \<Longrightarrow> fold step fs m = m"
  by (induction fs) simp_all

lemma fold_face_stable:
  "ExtrapolateVelocity_face x y z mark wallmark f m = m \<Longrightarrow>
   ExtrapolateVelocity_face x y z mark wallmark f
     (fold (ExtrapolateVelocity_face x y z mark wallmark) fs m)
   = fold (ExtrapolateVelocity_face x y z mark wallmark) fs m"
proof (induction fs arbitrary: m)
  case Nil
  then show ?case by simp
next
  case (Cons g fs)
  then show ?case using face_stable [of x y z mark wallmark f m g] by simp
qed

lemma fold_face_settled:
  "f \<in> set fs \<Longrightarrow>
   ExtrapolateVelocity_face x y z mark wallmark f
     (fold (ExtrapolateVelocity_face x y z mark wallmark) fs m)
   = fold (ExtrapolateVelocity_face x y z mark wallmark) fs m"
proof (induction fs arbitrary: m)
  case Nil
  then show ?case by simp
next
  case (Cons g fs)
  show ?case
  proof (cases "f = g")
    case True
    then show ?thesis
      using fold_face_stable [OF face_twice [of x y z mark wallmark g m], of fs] by simp
  next
    case False
    with Cons show ?thesis by simp
  qed
qed

lemma fold_face_idem:
  "fold (ExtrapolateVelocity_face x y z mark wallmark) fs
     (fold (ExtrapolateVelocity_face x y z mark wallmark) fs m)
   = fold (ExtrapolateVelocity_face x y z mark wallmark) fs m"
  by (rule fold_fixed) (rule fold_face_settled)

lemma m_A_face: "m_A (ExtrapolateVelocity_face x y z mark wallmark f m) = m_A m"
  by (subst face_alt) (simp add: m_A_set_ugrid)

lemma m_A_fold_face:
  "m_A (fold (ExtrapolateVelocity_face x y z mark wallmark) fs m) = m_A m"
  by (induction fs arbitrary: m) (simp_all add: m_A_face)

text \<open>
  C6. \<open>ExtrapolateVelocity\<close> is idempotent: run on its own result, with the markers
  unchanged, it returns that result, the three face-velocity fields included.
\<close>

theorem ExtrapolateVelocity_idempotent:
  "ExtrapolateVelocity (ExtrapolateVelocity sim) = ExtrapolateVelocity sim"
proof -
  define x y z where "x = cuint (vec_x (m_dimensions sim))"
    and "y = cuint (vec_y (m_dimensions sim))" and "z = cuint (vec_z (m_dimensions sim))"
  define mark wallmark where "mark = fst (ExtrapolateVelocity_marks (m_A (m_mgrid sim)) x y z)"
    and "wallmark = snd (ExtrapolateVelocity_marks (m_A (m_mgrid sim)) x y z)"
  define once where "once = fold (ExtrapolateVelocity_face x y z mark wallmark)
                             (ExtrapolateVelocity_faces x y z) (m_mgrid sim)"
  have first: "ExtrapolateVelocity sim = sim\<lparr>m_mgrid := once\<rparr>"
    by (simp add: ExtrapolateVelocity_def Let_def once_def mark_def wallmark_def x_def y_def
        z_def)
  have markers: "m_A once = m_A (m_mgrid sim)"
    unfolding once_def by (rule m_A_fold_face)
  have "ExtrapolateVelocity (sim\<lparr>m_mgrid := once\<rparr>)
        = sim\<lparr>m_mgrid := fold (ExtrapolateVelocity_face x y z mark wallmark)
                             (ExtrapolateVelocity_faces x y z) once\<rparr>"
    by (simp add: ExtrapolateVelocity_def Let_def markers mark_def wallmark_def x_def y_def
        z_def)
  also have "fold (ExtrapolateVelocity_face x y z mark wallmark)
               (ExtrapolateVelocity_faces x y z) once = once"
    unfolding once_def by (rule fold_face_idem)
  finally show ?thesis by (simp add: first)
qed

section \<open>AdvectParticles: the box\<close>

lemma clamp_sel_simps [simp]:
  "vec_x (max3 a b) = max (vec_x a) (vec_x b)" "vec_y (max3 a b) = max (vec_y a) (vec_y b)"
  "vec_z (max3 a b) = max (vec_z a) (vec_z b)"
  "vec_x (min3 a b) = min (vec_x a) (vec_x b)" "vec_y (min3 a b) = min (vec_y a) (vec_y b)"
  "vec_z (min3 a b) = min (vec_z a) (vec_z b)"
  "vec_x (splat r) = r" "vec_y (splat r) = r" "vec_z (splat r) = r"
  by (simp_all add: max3_def min3_def splat_def)

lemma length3_axis: "length3 (vec3 a 0 0) = \<bar>a\<bar>" "length3 (vec3 0 a 0) = \<bar>a\<bar>"
  "length3 (vec3 0 0 a) = \<bar>a\<bar>"
  by (simp_all add: length3_def dot_def)

text \<open>The inner loop writes the particle p0 only.\<close>

lemma push_type: "m_type (AdvectParticles_push re np p) = m_type p"
  by (simp add: AdvectParticles_push_def Let_def)

lemma push_not_solid: "m_type np \<noteq> SOLID \<Longrightarrow> AdvectParticles_push re np p = p"
  by (simp add: AdvectParticles_push_def)

lemma push_far: "\<not> length3 (m_p p - m_p np) < re \<Longrightarrow> AdvectParticles_push re np p = p"
  by (simp add: AdvectParticles_push_def Let_def)

lemma fold_push_length:
  "length (fold (\<lambda>p1 ps. ps[p0 := F (ps ! p1) (ps ! p0)]) nbrs ps) = length ps"
  by (induction nbrs arbitrary: ps) simp_all

lemma fold_push_other:
  "q \<noteq> p0 \<Longrightarrow> fold (\<lambda>p1 ps. ps[p0 := F (ps ! p1) (ps ! p0)]) nbrs ps ! q = ps ! q"
  by (induction nbrs arbitrary: ps) simp_all

lemma fold_push_type:
  "p0 < length ps \<Longrightarrow>
   m_type (fold (\<lambda>p1 ps. ps[p0 := AdvectParticles_push re (ps ! p1) (ps ! p0)]) nbrs ps ! p0)
   = m_type (ps ! p0)"
  by (induction nbrs arbitrary: ps) (simp_all add: push_type)

lemma fold_push_id:
  assumes "\<And>p1. p1 \<in> set nbrs \<Longrightarrow> AdvectParticles_push re (ps ! p1) (ps ! p0) = ps ! p0"
  shows "fold (\<lambda>p1 ps. ps[p0 := AdvectParticles_push re (ps ! p1) (ps ! p0)]) nbrs ps = ps"
  using assms by (induction nbrs) simp_all

lemma constrain_length:
  "length (AdvectParticles_constrain x y z maxd density pgrid p0 ps) = length ps"
  by (simp add: AdvectParticles_constrain_def Let_def fold_push_length)

lemma constrain_other:
  "q \<noteq> p0 \<Longrightarrow> AdvectParticles_constrain x y z maxd density pgrid p0 ps ! q = ps ! q"
  by (simp add: AdvectParticles_constrain_def Let_def fold_push_other)

lemma constrain_not_fluid:
  "m_type (ps ! p0) \<noteq> FLUID \<Longrightarrow> AdvectParticles_constrain x y z maxd density pgrid p0 ps = ps"
  by (simp add: AdvectParticles_constrain_def Let_def)

lemma constrain_type:
  assumes "p0 < length ps"
  shows "m_type (AdvectParticles_constrain x y z maxd density pgrid p0 ps ! q) = m_type (ps ! q)"
proof (cases "q = p0")
  case False
  then show ?thesis by (simp add: constrain_other)
next
  case True
  show ?thesis
  proof (cases "m_type (ps ! p0) = FLUID")
    case False
    then show ?thesis by (simp add: constrain_not_fluid)
  next
    case fl: True
    then show ?thesis
      using assms True by (simp add: AdvectParticles_constrain_def Let_def fold_push_type)
  qed
qed

text \<open>The second loop keeps the types, and keeps every particle that is not fluid.\<close>

lemma fold_constrain_length:
  "length (fold (AdvectParticles_constrain x y z maxd density pgrid) is ps) = length ps"
  by (induction "is" arbitrary: ps) (simp_all add: constrain_length)

lemma fold_constrain_other:
  "q \<notin> set is \<Longrightarrow> fold (AdvectParticles_constrain x y z maxd density pgrid) is ps ! q = ps ! q"
  by (induction "is" arbitrary: ps) (auto simp: constrain_other)

lemma fold_constrain_type:
  "\<forall>p \<in> set is. p < length ps \<Longrightarrow>
   m_type (fold (AdvectParticles_constrain x y z maxd density pgrid) is ps ! q) = m_type (ps ! q)"
  by (induction "is" arbitrary: ps) (simp_all add: constrain_length constrain_type)

lemma fold_constrain_not_fluid:
  "\<forall>p \<in> set is. p < length ps \<Longrightarrow> m_type (ps ! q) \<noteq> FLUID \<Longrightarrow>
   fold (AdvectParticles_constrain x y z maxd density pgrid) is ps ! q = ps ! q"
proof (induction "is" arbitrary: ps)
  case Nil
  then show ?case by simp
next
  case (Cons p "is")
  let ?ps = "AdvectParticles_constrain x y z maxd density pgrid p ps"
  have same: "?ps ! q = ps ! q"
  proof (cases "q = p")
    case True
    then show ?thesis using Cons.prems by (simp add: constrain_not_fluid)
  next
    case False
    then show ?thesis by (simp add: constrain_other)
  qed
  have "fold (AdvectParticles_constrain x y z maxd density pgrid) is ?ps ! q = ?ps ! q"
    using Cons.prems same by (intro Cons.IH) (simp_all add: constrain_length)
  with same show ?case by simp
qed

lemma clamp_in_box:
  fixes maxd v :: real
  assumes "2 \<le> maxd"
  shows "1 / maxd \<le> max (1 / maxd) (min (1 - 1 / maxd) v)"
    and "max (1 / maxd) (min (1 - 1 / maxd) v) \<le> 1 - 1 / maxd"
proof -
  have "1 / maxd \<le> 1 / 2" using assms by (simp add: field_simps)
  then show "max (1 / maxd) (min (1 - 1 / maxd) v) \<le> 1 - 1 / maxd" by simp
qed simp

text \<open>
  C3, amended: where \<open>maxd\<close> is at least 2, a fluid particle none of whose grid
  neighbours is a solid particle closer than \<open>1.5 * density / maxd\<close> to its clamped
  position ends \<open>AdvectParticles\<close> at that clamped position, each component of which
  lies in \<open>[1/maxd, 1 - 1/maxd]\<close>. The neighbours are particles of the array.
\<close>

theorem AdvectParticles_in_box:
  fixes sim :: FlipSim and p0 :: nat
    and InterpolateVelocity :: "vec3 \<Rightarrow> macgrid \<Rightarrow> vec3"
    and Sort :: "Particle list \<Rightarrow> ParticleGrid"
  defines "maxd \<equiv> maxd_of (m_dimensions sim)"
    and "ps1 \<equiv> map (AdvectParticles_move InterpolateVelocity (m_stepsize sim) (m_mgrid sim))
                  (m_particles sim)"
  defines "clamped \<equiv> max3 (splat (1 / maxd)) (min3 (splat (1 - 1 / maxd)) (m_p (ps1 ! p0)))"
  defines "cell \<equiv>
      vec3 (real (cuint (min (real (cuint (vec_x (m_dimensions sim))) - 1) (vec_x clamped * maxd))))
           (real (cuint (min (real (cuint (vec_y (m_dimensions sim))) - 1) (vec_y clamped * maxd))))
           (real (cuint (min (real (cuint (vec_z (m_dimensions sim))) - 1) (vec_z clamped * maxd))))"
  assumes "p0 < length (m_particles sim)" and "m_type (m_particles sim ! p0) = FLUID"
    and "2 \<le> maxd"
    and "\<forall>n \<in> set (GetCellNeighbors (Sort ps1) cell (splat 1)).
           n < length (m_particles sim) \<and>
           (m_type (m_particles sim ! n) = SOLID \<longrightarrow>
              \<not> length3 (clamped - m_p (m_particles sim ! n)) < 15 / 10 * m_density sim / maxd)"
  shows "m_type (m_particles (AdvectParticles InterpolateVelocity Sort sim) ! p0) = FLUID
    \<and> m_p (m_particles (AdvectParticles InterpolateVelocity Sort sim) ! p0) = clamped
    \<and> 1 / maxd \<le> vec_x (m_p (m_particles (AdvectParticles InterpolateVelocity Sort sim) ! p0))
    \<and> vec_x (m_p (m_particles (AdvectParticles InterpolateVelocity Sort sim) ! p0)) \<le> 1 - 1 / maxd
    \<and> 1 / maxd \<le> vec_y (m_p (m_particles (AdvectParticles InterpolateVelocity Sort sim) ! p0))
    \<and> vec_y (m_p (m_particles (AdvectParticles InterpolateVelocity Sort sim) ! p0)) \<le> 1 - 1 / maxd
    \<and> 1 / maxd \<le> vec_z (m_p (m_particles (AdvectParticles InterpolateVelocity Sort sim) ! p0))
    \<and> vec_z (m_p (m_particles (AdvectParticles InterpolateVelocity Sort sim) ! p0)) \<le> 1 - 1 / maxd"
proof -
  define x y z where "x = cuint (vec_x (m_dimensions sim))"
    and "y = cuint (vec_y (m_dimensions sim))" and "z = cuint (vec_z (m_dimensions sim))"
  define n where "n = length (m_particles sim)"
  define pgrid where "pgrid = Sort ps1"
  define C where "C = AdvectParticles_constrain x y z maxd (m_density sim) pgrid"
  define psb where "psb = fold C [0..<p0] ps1"
  have len1: "length ps1 = n" by (simp add: ps1_def n_def)
  have p0n: "p0 < n" using assms(5) by (simp add: n_def)
  have type1: "m_type (ps1 ! q) = m_type (m_particles sim ! q)" if "q < n" for q
    using that by (simp add: ps1_def n_def AdvectParticles_move_def Let_def)
  have solid1: "ps1 ! q = m_particles sim ! q" if "q < n" "m_type (m_particles sim ! q) = SOLID" for q
    using that by (simp add: ps1_def n_def AdvectParticles_move_def)
  have res: "m_particles (AdvectParticles InterpolateVelocity Sort sim) = fold C [0..<n] ps1"
    by (simp add: AdvectParticles_def Let_def C_def pgrid_def x_def y_def z_def n_def
        ps1_def maxd_def)
  have split: "[0..<n] = [0..<p0] @ p0 # [Suc p0..<n]"
    using p0n by (metis le_add1 less_imp_add_positive upt_add_eq_append upt_conv_Cons
        add_0 less_or_eq_imp_le)
  have lenb: "length psb = n"
    by (simp add: psb_def C_def fold_constrain_length len1)
  have res0: "fold C [0..<n] ps1 ! p0 = C p0 psb ! p0"
    unfolding split by (simp add: psb_def C_def fold_constrain_other)
  have b0: "psb ! p0 = ps1 ! p0"
    by (simp add: psb_def C_def fold_constrain_other)
  have typeb: "m_type (psb ! q) = m_type (ps1 ! q)" for q
    unfolding psb_def C_def using p0n len1 by (intro fold_constrain_type) simp
  have solidb: "psb ! q = ps1 ! q" if "m_type (ps1 ! q) \<noteq> FLUID" for q
    unfolding psb_def C_def using p0n len1 that by (intro fold_constrain_not_fluid) simp_all
  have fl: "m_type (psb ! p0) = FLUID"
    using typeb [of p0] type1 [OF p0n] assms(6) by simp
  define pc where "pc = (psb ! p0)\<lparr>m_p := clamped\<rparr>"
  define psc where "psc = psb[p0 := pc]"
  have pc: "m_type pc = FLUID" "m_p pc = clamped"
    using fl by (simp_all add: pc_def)
  have psc0: "psc ! p0 = pc"
    using p0n lenb by (simp add: psc_def)
  have nb: "AdvectParticles_push (15 / 10 * m_density sim / maxd) (psc ! p1) (psc ! p0) = psc ! p0"
    if "p1 \<in> set (GetCellNeighbors pgrid cell (splat 1))" for p1
  proof (cases "p1 = p0")
    case True
    then show ?thesis using pc psc0 by (simp add: push_not_solid)
  next
    case False
    then have e: "psc ! p1 = psb ! p1" by (simp add: psc_def)
    from that assms(8) have p1n: "p1 < n"
      and far: "m_type (m_particles sim ! p1) = SOLID \<Longrightarrow>
                \<not> length3 (clamped - m_p (m_particles sim ! p1)) < 15 / 10 * m_density sim / maxd"
      by (auto simp: pgrid_def n_def)
    show ?thesis
    proof (cases "m_type (m_particles sim ! p1) = SOLID")
      case True
      then have "psb ! p1 = m_particles sim ! p1"
        using solidb [of p1] type1 [OF p1n] solid1 [OF p1n] by simp
      then show ?thesis using far [OF True] e psc0 pc by (simp add: push_far)
    next
      case False
      then have "m_type (psc ! p1) \<noteq> SOLID"
        using e typeb [of p1] type1 [OF p1n] by simp
      then show ?thesis by (rule push_not_solid)
    qed
  qed
  have step1: "(if m_type (psb ! p0) = FLUID
      then psb[p0 := (psb ! p0)\<lparr>m_p := max3 (splat (1 / maxd))
                                         (min3 (splat (1 - 1 / maxd)) (m_p (psb ! p0)))\<rparr>]
      else psb) = psc"
    using fl by (simp add: psc_def pc_def clamped_def b0)
  have cell': "vec3 (real (cuint (min (real x - 1) (vec_x clamped * maxd))))
                    (real (cuint (min (real y - 1) (vec_y clamped * maxd))))
                    (real (cuint (min (real z - 1) (vec_z clamped * maxd)))) = cell"
    by (simp add: cell_def x_def y_def z_def)
  have "C p0 psb = fold (\<lambda>p1 ps. ps[p0 := AdvectParticles_push (15 / 10 * m_density sim / maxd)
                                        (ps ! p1) (ps ! p0)])
                     (GetCellNeighbors pgrid cell (splat 1)) psc"
    unfolding C_def AdvectParticles_constrain_def Let_def step1
    by (simp only: psc0 pc cell' if_True simp_thms)
  also have "\<dots> = psc"
    using nb by (rule fold_push_id)
  finally have "C p0 psb = psc" .
  then have fin: "m_particles (AdvectParticles InterpolateVelocity Sort sim) ! p0 = pc"
    by (simp add: res res0 psc0)
  show ?thesis
    using clamp_in_box [OF assms(7)] pc by (simp add: fin) (simp add: clamped_def)
qed

section \<open>Instances\<close>

text \<open>
  The theorems above at concrete simulations: \<open>wall_sim\<close> for the external forces,
  the degenerate ray and the reflection, \<open>pipe_sim\<close> for the extrapolation,
  \<open>free_sim\<close> for the box.
\<close>

lemma sim_defs:
  "m_particles wall_sim = [moving_particle, resting_particle, solid_particle]"
  "m_scene wall_sim = wall_scene" "m_stepsize wall_sim = 1 / 10"
  "m_dimensions wall_sim = vec3 2 2 2" "m_frame_count wall_sim = 1"
  by (simp_all add: wall_sim_def)

theorem ApplyExternalForces_every_particle_witness:
  "m_type (m_particles wall_sim ! 2) = SOLID
   \<and> m_u (m_particles wall_sim ! 2) = vec3 0 0 0
   \<and> m_u (m_particles (ApplyExternalForces wall_sim) ! 2) = vec3 0 (- 1) 0"
  using ApplyExternalForces_every_particle [of 2 wall_sim]
  by (simp add: wall_sim_def wall_scene_def solid_particle_def plus_vec3_def vscale_def)

theorem degenerate_ray_is_skipped_witness:
  "m_type (m_particles wall_sim ! 1) = FLUID
   \<and> m_p (m_particles wall_sim ! 1) = m_pt (m_particles wall_sim ! 1)
   \<and> m_particles (CheckParticleSolidConstraints wall_sim) ! 1 = resting_particle
   \<and> AdjustParticlesStuckInSolids_loop wall_scene 2 1 [0, 1] [moving_particle, resting_particle] ! 1
       = resting_particle"
  using degenerate_ray_is_skipped [of 1 wall_sim 1 "[moving_particle, resting_particle]"
      wall_scene 2 1 "[0, 1]"]
  by (simp add: wall_sim_def resting_particle_def)

lemma moving_facts:
  "m_p moving_particle - m_pt moving_particle = vec3 1 0 0"
  "normalize3 (vec3 1 0 0) = vec3 1 0 0"
  by (simp_all add: moving_particle_def minus_vec3_def normalize3_def dot_def vscale_def)

theorem CheckParticleSolidConstraints_reflects_witness:
  "m_type (m_particles wall_sim ! 0) = FLUID
   \<and> m_p (m_particles wall_sim ! 0) \<noteq> m_pt (m_particles wall_sim ! 0)
   \<and> m_p (m_particles (CheckParticleSolidConstraints wall_sim) ! 0) = vec3 (9 / 20) 0 0
   \<and> m_u (m_particles (CheckParticleSolidConstraints wall_sim) ! 0) = vec3 5 0 0
   \<and> length3 (m_u (m_particles (CheckParticleSolidConstraints wall_sim) ! 0)) = 5"
proof -
  have p: "m_particles wall_sim ! 0 = moving_particle" by (simp add: wall_sim_def)
  have ne: "m_p moving_particle \<noteq> m_pt moving_particle" by (simp add: moving_particle_def)
  have ut: "m_ut moving_particle = vec3 5 0 0" "m_pt moving_particle = vec3 0 0 0"
    "m_type moving_particle = FLUID" "m_p moving_particle = vec3 1 0 0"
    by (simp_all add: moving_particle_def)
  have df: "vec3 1 0 0 - vec3 0 0 0 = vec3 1 0 0"
    by (simp add: minus_vec3_def)
  have sc: "IntersectSolidGeoms wall_scene r = \<lparr>m_hit = True, m_point = vec3 1 0 0, m_normal = vec3 (- 1) 0 0\<rparr>"
    "CheckPointInsideSolidGeom wall_scene q fr = False" for r q fr
    by (simp_all add: wall_scene_def)
  have md: "maxd_of (vec3 2 2 2) = 2" by (simp add: maxd_of_def)
  have v: "vscale (vec3 0 0 0) 2 - vec3 1 0 0 = vec3 (- 1) 0 0"
    by (simp add: vscale_def minus_vec3_def)
  show ?thesis
    using CheckParticleSolidConstraints_reflects [of 0 wall_sim]
    by (simp add: sim_defs p ut sc md df moving_facts v length3_axis)
       (simp add: vscale_def scalev_def vdiv_def plus_vec3_def minus_vec3_def dot_def
         length3_axis)
qed

text \<open>
  In \<open>pipe_sim\<close> the face behind the solid cell has no mark and a wall mark, and one
  marked neighbour: the pass gives it the velocity 7 of that neighbour.
\<close>

lemma usub1_simps: "usub1 0 = 4294967295" "usub1 (Suc 0) = 0" "usub1 2 = 1"
  by (simp_all add: usub1_def)

lemma nth_marks_y:
  "fst (mark_y_body a y c mw) ! 0 = fst mw ! 0" "snd (mark_y_body a y c mw) ! 0 = snd mw ! 0"
  by (cases c; cases mw; simp add: mark_y_body_def)+

lemma nth_marks_z:
  "fst (mark_z_body a z c mw) ! 0 = fst mw ! 0" "snd (mark_z_body a z c mw) ! 0 = snd mw ! 0"
  by (cases c; cases mw; simp add: mark_z_body_def)+

lemma fold_marks_y:
  "fst (fold (mark_y_body a y) cs mw) ! 0 = fst mw ! 0"
  "snd (fold (mark_y_body a y) cs mw) ! 0 = snd mw ! 0"
  by (induction cs arbitrary: mw) (simp_all add: nth_marks_y)

lemma fold_marks_z:
  "fst (fold (mark_z_body a z) cs mw) ! 0 = fst mw ! 0"
  "snd (fold (mark_z_body a z) cs mw) ! 0 = snd mw ! 0"
  by (induction cs arbitrary: mw) (simp_all add: nth_marks_z)

lemma pipe_marks:
  "(fst (ExtrapolateVelocity_marks (m_A pipe_grid) 2 1 1) ! 0) (1, 0, 0) \<noteq> 0"
  "(fst (ExtrapolateVelocity_marks (m_A pipe_grid) 2 1 1) ! 0) (2, 0, 0) = 0"
  "(snd (ExtrapolateVelocity_marks (m_A pipe_grid) 2 1 1) ! 0) (2, 0, 0) \<noteq> 0"
proof -
  have l: "loop3 3 (Suc 0) (Suc 0) = [(0, 0, 0), (1, 0, 0), (2, 0, 0)]"
    by (simp add: loop3_def upt_rec)
  show "(fst (ExtrapolateVelocity_marks (m_A pipe_grid) 2 1 1) ! 0) (1, 0, 0) \<noteq> 0"
    "(fst (ExtrapolateVelocity_marks (m_A pipe_grid) 2 1 1) ! 0) (2, 0, 0) = 0"
    "(snd (ExtrapolateVelocity_marks (m_A pipe_grid) 2 1 1) ! 0) (2, 0, 0) \<noteq> 0"
    by (simp_all add: ExtrapolateVelocity_marks_def Let_def fold_marks_y fold_marks_z l
        mark_x_body_def GetCell_def SetCell_def pipe_grid_def)
qed

lemma face_marked:
  assumes "(mark ! n) c \<noteq> 0" "n < 3"
  shows "ugrid n (ExtrapolateVelocity_face x y z mark wallmark f m) c = ugrid n m c"
proof (cases "face_writes x y z mark wallmark f")
  case True
  then have "(mark ! snd f) (face_cell f) = 0" by (rule face_writes_unmarked)
  with assms have "\<not> (n = snd f \<and> c = face_cell f)" by auto
  then show ?thesis using assms(2) by (subst face_alt) (auto simp: ugrid_set_ugrid)
next
  case False
  then show ?thesis by (subst face_alt) simp
qed

lemma fold_face_marked:
  "(mark ! n) c \<noteq> 0 \<Longrightarrow> n < 3 \<Longrightarrow>
   ugrid n (fold (ExtrapolateVelocity_face x y z mark wallmark) fs m) c = ugrid n m c"
  by (induction fs arbitrary: m) (simp_all add: face_marked)

theorem ExtrapolateVelocity_idempotent_witness:
  "GetCell (m_u_x (m_mgrid pipe_sim)) 2 0 0 = 0
   \<and> GetCell (m_u_x (m_mgrid (ExtrapolateVelocity pipe_sim))) 2 0 0 = 7
   \<and> ExtrapolateVelocity (ExtrapolateVelocity pipe_sim) = ExtrapolateVelocity pipe_sim"
proof -
  define mark wallmark where "mark = fst (ExtrapolateVelocity_marks (m_A pipe_grid) 2 1 1)"
    and "wallmark = snd (ExtrapolateVelocity_marks (m_A pipe_grid) 2 1 1)"
  define f0 :: "(nat \<times> nat \<times> nat) \<times> nat" where "f0 = ((2, 0, 0), 0)"
  define once where "once = fold (ExtrapolateVelocity_face 2 1 1 mark wallmark)
                             (ExtrapolateVelocity_faces 2 1 1) pipe_grid"
  have res: "m_mgrid (ExtrapolateVelocity pipe_sim) = once"
    by (simp add: ExtrapolateVelocity_def pipe_sim_def Let_def once_def mark_def wallmark_def)
  have mk: "(mark ! 0) (1, 0, 0) \<noteq> 0" "(mark ! 0) (2, 0, 0) = 0" "(wallmark ! 0) (2, 0, 0) \<noteq> 0"
    unfolding mark_def wallmark_def by (rule pipe_marks)+
  have mem: "f0 \<in> set (ExtrapolateVelocity_faces 2 1 1)"
    by (simp add: ExtrapolateVelocity_faces_def loop3_def upt_rec f0_def)
  have w: "face_writes 2 1 1 mark wallmark f0"
    using mk by (simp add: face_writes_def f0_def usub1_simps)
  have "face_value 2 1 1 mark f0 once = face_value 2 1 1 mark f0 pipe_grid"
    unfolding once_def by (rule face_value_cong) (simp add: fold_face_marked)
  also have "\<dots> = (1, 7)"
    using mk(1)
    by (simp add: face_value_def f0_def ExtrapolateVelocity_sum_def usub1_simps GetCell_def
        pipe_grid_def Let_def)
  finally have v: "face_value 2 1 1 mark f0 once = (1, 7)" .
  have "ExtrapolateVelocity_face 2 1 1 mark wallmark f0 once = once"
    unfolding once_def using mem by (rule fold_face_settled)
  then have "set_ugrid 0 (2, 0, 0) 7 once = once"
    using w v by (subst (asm) face_alt) (simp add: f0_def face_cell_def)
  then have "ugrid 0 (set_ugrid 0 (2, 0, 0) 7 once) (2, 0, 0) = ugrid 0 once (2, 0, 0)"
    by simp
  then have "m_u_x once (2, 0, 0) = 7"
    by (simp add: ugrid_set_ugrid) (simp add: ugrid_def)
  then show ?thesis
    using ExtrapolateVelocity_idempotent [of pipe_sim]
    by (simp add: res GetCell_def) (simp add: pipe_sim_def pipe_grid_def)
qed

text \<open>
  C3, as stated: in \<open>push_sim\<close> the fluid particle sits on the lower x face of the box,
  at \<open>x = 1/4\<close>, and the solid marker particle next to it pushes it along its normal
  after the clamp, to \<open>x = -3/40\<close>, outside the box. In \<open>tiny_sim\<close>, where \<open>maxd\<close> is 1,
  the interval \<open>[1/maxd, 1 - 1/maxd]\<close> is empty and the clamp puts the particle at 1.
\<close>

theorem AdvectParticles_pushed_out_of_box:
  "m_type (m_particles (AdvectParticles (\<lambda>p g. vec3 0 0 0) (\<lambda>ps c r. [1]) push_sim) ! 0) = FLUID
   \<and> vec_x (m_p (m_particles (AdvectParticles (\<lambda>p g. vec3 0 0 0) (\<lambda>ps c r. [1]) push_sim) ! 0))
       = - 3 / 40
   \<and> \<not> 1 / maxd_of (m_dimensions push_sim)
        \<le> vec_x (m_p (m_particles (AdvectParticles (\<lambda>p g. vec3 0 0 0) (\<lambda>ps c r. [1]) push_sim) ! 0))
   \<and> m_type (m_particles (AdvectParticles (\<lambda>p g. vec3 0 0 0) (\<lambda>ps c r. []) tiny_sim) ! 0) = FLUID
   \<and> vec_x (m_p (m_particles (AdvectParticles (\<lambda>p g. vec3 0 0 0) (\<lambda>ps c r. []) tiny_sim) ! 0))
       = 1
   \<and> \<not> vec_x (m_p (m_particles (AdvectParticles (\<lambda>p g. vec3 0 0 0) (\<lambda>ps c r. []) tiny_sim) ! 0))
        \<le> 1 - 1 / maxd_of (m_dimensions tiny_sim)"
proof -
  have md: "maxd_of (vec3 4 4 4) = 4" "maxd_of (vec3 1 1 1) = 1" by (simp_all add: maxd_of_def)
  have d: "vec3 (1 / 4) (1 / 2) (1 / 2) - vec3 (3 / 10) (1 / 2) (1 / 2) = vec3 (- 1 / 20) 0 0"
    by (simp add: minus_vec3_def)
  have mv: "AdvectParticles_move (\<lambda>p g. vec3 0 0 0) 1 still_grid edge_particle = edge_particle"
    "AdvectParticles_move (\<lambda>p g. vec3 0 0 0) 1 still_grid solid_particle = solid_particle"
    "AdvectParticles_move (\<lambda>p g. vec3 0 0 0) 1 still_grid resting_particle = resting_particle"
    by (simp_all add: AdvectParticles_move_def Let_def edge_particle_def solid_particle_def
        resting_particle_def plus_vec3_def scalev_def)
  have c: "AdvectParticles_constrain 4 4 4 4 1 (\<lambda>c r. [Suc 0]) 0 [edge_particle, solid_particle]
      = [edge_particle\<lparr>m_p := vec3 (- (3 / 40)) (1 / 2) (1 / 2)\<rparr>, solid_particle]"
    by (simp add: AdvectParticles_constrain_def AdvectParticles_push_def Let_def
        GetCellNeighbors_def edge_particle_def solid_particle_def max3_def min3_def splat_def
        d length3_axis plus_vec3_def minus_vec3_def scalev_def dot_def)
  have c1: "AdvectParticles_constrain 4 4 4 4 1 (\<lambda>c r. [Suc 0]) (Suc 0)
        [edge_particle\<lparr>m_p := vec3 (- (3 / 40)) (1 / 2) (1 / 2)\<rparr>, solid_particle]
      = [edge_particle\<lparr>m_p := vec3 (- (3 / 40)) (1 / 2) (1 / 2)\<rparr>, solid_particle]"
    by (simp add: AdvectParticles_constrain_def solid_particle_def)
  have push: "m_particles (AdvectParticles (\<lambda>p g. vec3 0 0 0) (\<lambda>ps c r. [1]) push_sim)
      = [edge_particle\<lparr>m_p := vec3 (- (3 / 40)) (1 / 2) (1 / 2)\<rparr>, solid_particle]"
    by (simp add: AdvectParticles_def push_sim_def Let_def md mv upt_rec c c1)
  have t: "AdvectParticles_constrain (Suc 0) (Suc 0) (Suc 0) 1 1 (\<lambda>c r. []) 0 [resting_particle]
      = [resting_particle\<lparr>m_p := vec3 1 1 1\<rparr>]"
    by (simp add: AdvectParticles_constrain_def Let_def GetCellNeighbors_def
        resting_particle_def max3_def min3_def splat_def)
  have tiny: "m_particles (AdvectParticles (\<lambda>p g. vec3 0 0 0) (\<lambda>ps c r. []) tiny_sim)
      = [resting_particle\<lparr>m_p := vec3 1 1 1\<rparr>]"
    by (simp add: AdvectParticles_def tiny_sim_def Let_def md mv upt_rec t)
  show ?thesis
    unfolding push tiny
    by (simp add: edge_particle_def resting_particle_def push_sim_def tiny_sim_def md)
qed

theorem AdvectParticles_in_box_witness:
  "m_type (m_particles free_sim ! 0) = FLUID
   \<and> 2 \<le> maxd_of (m_dimensions free_sim)
   \<and> m_type (m_particles free_sim ! 1) = SOLID
   \<and> m_p (m_particles (AdvectParticles (\<lambda>p g. vec3 1 0 0) (\<lambda>ps c r. [1]) free_sim) ! 0)
       = vec3 (3 / 4) (1 / 2) (1 / 2)
   \<and> 1 / maxd_of (m_dimensions free_sim)
       \<le> vec_x (m_p (m_particles (AdvectParticles (\<lambda>p g. vec3 1 0 0) (\<lambda>ps c r. [1]) free_sim) ! 0))
   \<and> vec_x (m_p (m_particles (AdvectParticles (\<lambda>p g. vec3 1 0 0) (\<lambda>ps c r. [1]) free_sim) ! 0))
       \<le> 1 - 1 / maxd_of (m_dimensions free_sim)"
proof -
  have md: "maxd_of (vec3 4 4 4) = 4" by (simp add: maxd_of_def)
  have d: "vec3 (3 / 4) (1 / 2) (1 / 2) - vec3 (3 / 10) (1 / 2) (1 / 2) = vec3 (9 / 20) 0 0"
    by (simp add: minus_vec3_def)
  have cl: "max3 (splat (1 / 4)) (min3 (splat (3 / 4)) (vec3 1 (1 / 2) (1 / 2)))
      = vec3 (3 / 4) (1 / 2) (1 / 2)"
    by (simp add: max3_def min3_def splat_def)
  have mv: "m_p (AdvectParticles_move (\<lambda>p g. vec3 1 0 0) 1 still_grid
                  (resting_particle\<lparr>m_p := vec3 0 (1 / 2) (1 / 2)\<rparr>)) = vec3 1 (1 / 2) (1 / 2)"
    by (simp add: AdvectParticles_move_def Let_def resting_particle_def plus_vec3_def scalev_def)
  show ?thesis
    using AdvectParticles_in_box [where sim = free_sim and ?p0.0 = 0
        and InterpolateVelocity = "\<lambda>p g. vec3 1 0 0" and Sort = "\<lambda>ps c r. [1]"]
    by (simp add: free_sim_def md mv cl d length3_axis GetCellNeighbors_def)
       (simp add: resting_particle_def solid_particle_def d length3_axis)
qed

end
